theory Spec2Isabelle
  imports Complex_Main "HOL-Library.AList"
begin

section \<open>Numbers, vectors and the environment\<close>

text \<open>
  JavaScript numbers are modelled as exact reals: rounding of IEEE doubles is not part of
  this development.  The one non-number that the terrain code can produce is \<open>NaN\<close>
  (arithmetic on an \<open>undefined\<close> array element); a value that may be \<open>NaN\<close> has type
  \<open>real option\<close>, with \<open>None\<close> for \<open>NaN\<close>.  A \<open>THREE.Vector3\<close> is a triple whose
  \<open>y\<close> component is the only one that the code fills from a height query.
\<close>

type_synonym vec3 = "real \<times> real option \<times> real"

text \<open>\<open>Vector3.distanceTo\<close>; with a \<open>NaN\<close> component the distance is \<open>NaN\<close>.\<close>

fun distanceTo :: "vec3 \<Rightarrow> vec3 \<Rightarrow> real option" where
  "distanceTo (x1, Some y1, z1) (x2, Some y2, z2) =
     Some (sqrt ((x1 - x2)\<^sup>2 + (y1 - y2)\<^sup>2 + (z1 - z2)\<^sup>2))"
| "distanceTo _ _ = None"

text \<open>\<open>a < b\<close> on JavaScript numbers: false as soon as the left operand is \<open>NaN\<close>.\<close>

fun js_less :: "real option \<Rightarrow> real \<Rightarrow> bool" where
  "js_less (Some a) b = (a < b)"
| "js_less None b = False"

text \<open>
  What the code takes from outside the repository: the simplex noise function of three.js,
  the local \<open>(x, z)\<close> coordinates of the vertices of the \<open>PlaneGeometry\<close>, and the stream of
  values returned by \<open>Math.random()\<close> (each in \<open>[0, 1)\<close>).
\<close>

record env =
  noise :: "real \<Rightarrow> real \<Rightarrow> real"
  vertices :: "(real \<times> real) list"
  rnd :: "nat \<Rightarrow> real"

section \<open>Resource nodes: \<open>InteractiveObject\<close>, \<open>Tree\<close>, \<open>Rock\<close>\<close>

datatype kind = Tree | Rock

datatype resource = Wood | Stone

record node =
  kind :: kind
  position :: vec3
  health :: int
  resourceType :: resource
  resourceAmount :: int
  respawnTime :: real
  interactionEnabled :: bool
  visible :: bool
  scale :: real

text \<open>The constructors of \<open>Tree\<close> and \<open>Rock\<close> (after \<open>super(scene, position)\<close>).\<close>

fun fullHealth :: "kind \<Rightarrow> int" where
  "fullHealth Tree = 100"
| "fullHealth Rock = 150"

fun newNode :: "kind \<Rightarrow> vec3 \<Rightarrow> node" where
  "newNode Tree p = \<lparr>kind = Tree, position = p, health = 100, resourceType = Wood,
     resourceAmount = 3, respawnTime = 30, interactionEnabled = True, visible = True, scale = 1\<rparr>"
| "newNode Rock p = \<lparr>kind = Rock, position = p, health = 150, resourceType = Stone,
     resourceAmount = 5, respawnTime = 45, interactionEnabled = True, visible = True, scale = 1\<rparr>"

definition canInteract :: "node \<Rightarrow> bool" where
  "canInteract n = interactionEnabled n"

text \<open>
  \<open>Tree.interact\<close> and \<open>Rock.interact\<close> (the two bodies are the same).  The result is the
  reward (\<open>None\<close> for \<open>null\<close>), the node after the call, and the delay in milliseconds of the
  respawn timer when the call passes one to \<open>setTimeout\<close>.
\<close>

definition interact :: "node \<Rightarrow> (resource \<times> int) option \<times> node \<times> real option" where
  "interact n =
     (if \<not> canInteract n then (None, n, None)
      else
        let n1 = n\<lparr>health := health n - 25\<rparr>;
            n2 = n1\<lparr>scale := 95 / 100\<rparr>
        in if health n2 \<le> 0
           then (Some (resourceType n2, resourceAmount n2),
                 n2\<lparr>visible := False, interactionEnabled := False\<rparr>,
                 Some (respawnTime n2 * 1000))
           else (Some (resourceType n2, 1), n2, None))"

text \<open>\<open>Tree.respawn\<close> and \<open>Rock.respawn\<close>: the health constant is the one of the class.\<close>

definition respawn :: "node \<Rightarrow> node" where
  "respawn n = n\<lparr>health := fullHealth (kind n), scale := 1, visible := True,
                  interactionEnabled := True\<rparr>"

text \<open>\<open>Tree.update\<close> and \<open>Rock.update\<close>: the cosmetic grow-back of the scale.\<close>

fun growRate :: "kind \<Rightarrow> real \<times> real" where
  "growRate Tree = (5 / 10, 5 / 100)"
| "growRate Rock = (3 / 10, 3 / 100)"

definition node_update :: "real \<Rightarrow> node \<Rightarrow> node" where
  "node_update deltaTime n =
     (if visible n \<and> scale n < 1
      then let growFactor = min (deltaTime * fst (growRate (kind n))) (snd (growRate (kind n)));
               s = scale n + growFactor
           in n\<lparr>scale := (if s \<ge> 1 then 1 else s)\<rparr>
      else n)"

text \<open>
  \<open>removeChunk\<close> calls \<open>object.dispose()\<close> only when \<open>typeof object.dispose === 'function'\<close>.
  Neither \<open>InteractiveObject\<close> nor \<open>Tree\<close> nor \<open>Rock\<close> defines \<open>dispose\<close>, so the lookup
  finds no method: \<open>None\<close>.
\<close>

fun dispose_method :: "kind \<Rightarrow> (node \<Rightarrow> node) option" where
  "dispose_method Tree = None"
| "dispose_method Rock = None"

section \<open>The world: chunks, terrain and the object registry\<close>

type_synonym key = "int \<times> int"

text \<open>
  A chunk key is the string \<open>`${x},${z}`\<close> of two integers, modelled as the pair.  The chunk
  object of \<open>generateChunk\<close> has the fields \<open>terrain\<close>, \<open>objects\<close>, \<open>heightMap\<close>, \<open>x\<close>, \<open>z\<close>
  (and no field \<open>key\<close>); \<open>objects\<close> holds references to nodes, here their indices in the
  world's registry \<open>objects\<close>, which only ever grows.
\<close>

record chunk =
  terrain :: "nat option"
  cobjects :: "nat list"
  heightMap :: "real list option"
  chunkX :: int
  chunkZ :: int

datatype handle = TerrainMesh nat | NodeObject nat

text \<open>
  \<open>chunks\<close> and \<open>terrainBodies\<close> are JavaScript \<open>Map\<close>s, kept as association lists.  The keys
  of \<open>terrainBodies\<close> are whatever \<open>chunk.key\<close> evaluates to, so they may be \<open>undefined\<close>
  (\<open>None\<close>).  \<open>physics\<close> is \<open>context.systems.physics\<close>: absent, or the list of bodies in the
  physics world.  \<open>timers\<close> is the part of the browser's timer queue that holds the respawn
  callbacks: due time in milliseconds and the node.  \<open>disposedMeshes\<close> records the terrain
  meshes whose geometry and material were disposed.
\<close>

record world =
  chunks :: "(key \<times> chunk) list"
  lastPlayerChunkCoords :: "key option"
  objects :: "node list"
  scene :: "handle list"
  physicsEnabled :: bool
  terrainBodies :: "(key option \<times> nat) list"
  physics :: "nat list option"
  disposedMeshes :: "nat list"
  timers :: "(real \<times> nat) list"
  fresh :: nat
  draws :: nat

definition chunkSize :: real where "chunkSize = 50"
definition viewDistance :: int where "viewDistance = 2"
definition heightScale :: real where "heightScale = 5"

definition newWorld :: "bool \<Rightarrow> world" where
  "newWorld withPhysics = \<lparr>chunks = [], lastPlayerChunkCoords = None, objects = [], scene = [],
     physicsEnabled = False, terrainBodies = [],
     physics = (if withPhysics then Some [] else None),
     disposedMeshes = [], timers = [], fresh = 0, draws = 0\<rparr>"

definition getNoiseHeight :: "env \<Rightarrow> real \<Rightarrow> real \<Rightarrow> real" where
  "getNoiseHeight e x z =
     (let scaledX = x * (5 / 100); scaledZ = z * (5 / 100);
          largeScale = noise e (scaledX * (2 / 10)) (scaledZ * (2 / 10)) * (8 / 10);
          mediumScale = noise e (scaledX * (4 / 10)) (scaledZ * (4 / 10)) * (3 / 10);
          smallScale = noise e (scaledX * 1) (scaledZ * 1) * (1 / 10)
      in (largeScale + mediumScale + smallScale) * heightScale)"

text \<open>Reading \<open>heightMap[i]\<close>: \<open>undefined\<close> outside the array.\<close>

definition sample :: "real list \<Rightarrow> int \<Rightarrow> real option" where
  "sample hm i = (if 0 \<le> i \<and> i < int (length hm) then Some (hm ! nat i) else None)"

definition getHeightAt :: "world \<Rightarrow> real \<Rightarrow> real \<Rightarrow> real option" where
  "getHeightAt w x z =
     (let cX = \<lfloor>x / chunkSize\<rfloor>; cZ = \<lfloor>z / chunkSize\<rfloor> in
      case map_of (chunks w) (cX, cZ) of
        None \<Rightarrow> Some 0
      | Some c \<Rightarrow>
         (case heightMap c of
            None \<Rightarrow> Some 0
          | Some hm \<Rightarrow>
             (let localX = x - of_int cX * chunkSize;
                 localZ = z - of_int cZ * chunkSize;
                 terrainResolution = (32::int);
                 gridX = (localX / chunkSize) * of_int terrainResolution;
                 gridZ = (localZ / chunkSize) * of_int terrainResolution;
                 x0 = \<lfloor>gridX\<rfloor>;
                 z0 = \<lfloor>gridZ\<rfloor>;
                 x1 = min (x0 + 1) (terrainResolution - 1);
                 z1 = min (z0 + 1) (terrainResolution - 1)
             in if x0 < 0 \<or> x0 \<ge> terrainResolution \<or> z0 < 0 \<or> z0 \<ge> terrainResolution
                then Some 0
                else
                  let fracX = gridX - of_int x0;
                      fracZ = gridZ - of_int z0
                  in case (sample hm (x0 + z0 * terrainResolution),
                           sample hm (x1 + z0 * terrainResolution),
                           sample hm (x0 + z1 * terrainResolution),
                           sample hm (x1 + z1 * terrainResolution)) of
                       (Some h00, Some h10, Some h01, Some h11) \<Rightarrow>
                         (let hx0 = h00 * (1 - fracX) + h10 * fracX;
                              hx1 = h01 * (1 - fracX) + h11 * fracX
                          in Some (hx0 * (1 - fracZ) + hx1 * fracZ))
                     | _ \<Rightarrow> None)))"

text \<open>
  \<open>generateTerrainForChunk\<close>.  The loop over the vertices fills the local array
  \<open>heightMap\<close>; the function then builds the mesh, adds it to the scene, stores it in
  \<open>chunk.terrain\<close> and, when a physics system is present, creates the terrain body and stores
  it under \<open>chunk.key\<close>, a field the chunk does not have (\<open>undefined\<close>).  The local array is
  not assigned to any field of the chunk.
\<close>

definition generateTerrainForChunk :: "env \<Rightarrow> chunk \<Rightarrow> world \<Rightarrow> chunk \<times> world" where
  "generateTerrainForChunk e c w =
     (let offsetX = of_int (chunkX c) * chunkSize;
          offsetZ = of_int (chunkZ c) * chunkSize;
          heightMap = map (\<lambda>(vx, vz). getNoiseHeight e (vx + offsetX) (vz + offsetZ)) (vertices e);
          terrainMesh = fresh w;
          w1 = w\<lparr>fresh := fresh w + 1, scene := scene w @ [TerrainMesh terrainMesh]\<rparr>;
          c1 = c\<lparr>terrain := Some terrainMesh\<rparr>
      in case physics w1 of
           None \<Rightarrow> (c1, w1)
         | Some bodies \<Rightarrow>
            let terrainBody = fresh w1
            in (c1, w1\<lparr>fresh := fresh w1 + 1, physicsEnabled := True,
                       physics := Some (bodies @ [terrainBody]),
                       terrainBodies := AList.update None terrainBody (terrainBodies w1)\<rparr>))"

text \<open>
  The two loops of \<open>populateChunk\<close>: each round draws \<open>x\<close> and \<open>z\<close>, asks \<open>getHeightAt\<close>
  for \<open>y\<close>, constructs the node (whose \<open>init\<close> adds its group to the scene) and pushes it
  on both lists.  The draw of the node's random rotation, which only the rendering sees, is
  left out.
\<close>

fun addObjects :: "env \<Rightarrow> kind \<Rightarrow> nat \<Rightarrow> real \<Rightarrow> real \<Rightarrow> chunk \<times> world \<Rightarrow> chunk \<times> world" where
  "addObjects e k 0 worldX worldZ cw = cw"
| "addObjects e k (Suc n) worldX worldZ (c, w) =
     (let x = worldX + rnd e (draws w) * chunkSize;
          z = worldZ + rnd e (draws w + 1) * chunkSize;
          w1 = w\<lparr>draws := draws w + 2\<rparr>;
          y = getHeightAt w1 x z;
          i = length (objects w1);
          w2 = w1\<lparr>objects := objects w1 @ [newNode k (x, y, z)],
                  scene := scene w1 @ [NodeObject i]\<rparr>
      in addObjects e k n worldX worldZ (c\<lparr>cobjects := cobjects c @ [i]\<rparr>, w2))"

definition populateChunk :: "env \<Rightarrow> chunk \<Rightarrow> world \<Rightarrow> chunk \<times> world" where
  "populateChunk e c w =
     (let treeCount = 5 + \<lfloor>rnd e (draws w) * 5\<rfloor>;
          rockCount = 3 + \<lfloor>rnd e (draws w + 1) * 3\<rfloor>;
          w1 = w\<lparr>draws := draws w + 2\<rparr>;
          worldX = of_int (chunkX c) * chunkSize;
          worldZ = of_int (chunkZ c) * chunkSize
      in addObjects e Rock (nat rockCount) worldX worldZ
           (addObjects e Tree (nat treeCount) worldX worldZ (c, w1)))"

definition generateChunk :: "env \<Rightarrow> key \<Rightarrow> world \<Rightarrow> world" where
  "generateChunk e k w =
     (let c0 = \<lparr>terrain = None, cobjects = [], heightMap = None, chunkX = fst k, chunkZ = snd k\<rparr>;
          (c1, w1) = generateTerrainForChunk e c0 w;
          (c2, w2) = populateChunk e c1 w1
      in w2\<lparr>chunks := AList.update k c2 (chunks w2)\<rparr>)"

text \<open>The loop of \<open>removeChunk\<close> over \<open>chunk.objects\<close>.\<close>

definition disposeObject :: "world \<Rightarrow> nat \<Rightarrow> world" where
  "disposeObject w i =
     (if i < length (objects w)
      then (case dispose_method (kind (objects w ! i)) of
              None \<Rightarrow> w
            | Some d \<Rightarrow> w\<lparr>objects := (objects w)[i := d (objects w ! i)]\<rparr>)
      else w)"

definition removeChunk :: "key \<Rightarrow> world \<Rightarrow> world" where
  "removeChunk k w =
     (case map_of (chunks w) k of
        None \<Rightarrow> w
      | Some c \<Rightarrow>
         let w1 = (case terrain c of
                     None \<Rightarrow> w
                   | Some m \<Rightarrow> w\<lparr>scene := removeAll (TerrainMesh m) (scene w),
                                  disposedMeshes := disposedMeshes w @ [m]\<rparr>);
             w2 = foldl disposeObject w1 (cobjects c);
             w3 = (case map_of (terrainBodies w2) (Some k) of
                     Some body \<Rightarrow>
                       if physicsEnabled w2
                       then w2\<lparr>physics := map_option (removeAll body) (physics w2),
                               terrainBodies := AList.delete (Some k) (terrainBodies w2)\<rparr>
                       else w2
                   | None \<Rightarrow> w2)
         in w3\<lparr>chunks := AList.delete k (chunks w3)\<rparr>)"

text \<open>
  \<open>updateChunksAroundPlayer\<close>: the nested loops visit the keys of the square in this order;
  the second loop visits the keys of the map and removes those that are not active.
\<close>

definition activeChunks :: "int \<Rightarrow> int \<Rightarrow> key list" where
  "activeChunks pX pZ =
     concat (map (\<lambda>x. map (\<lambda>z. (x, z)) [pZ - viewDistance .. pZ + viewDistance])
                 [pX - viewDistance .. pX + viewDistance])"

definition ensureChunk :: "env \<Rightarrow> world \<Rightarrow> key \<Rightarrow> world" where
  "ensureChunk e w k = (if map_of (chunks w) k = None then generateChunk e k w else w)"

definition dropInactive :: "key list \<Rightarrow> world \<Rightarrow> key \<Rightarrow> world" where
  "dropInactive active w k = (if k \<notin> set active then removeChunk k w else w)"

definition updateChunksAroundPlayer :: "env \<Rightarrow> int \<Rightarrow> int \<Rightarrow> world \<Rightarrow> world" where
  "updateChunksAroundPlayer e pX pZ w =
     (let active = activeChunks pX pZ;
          w1 = foldl (ensureChunk e) w active
      in foldl (dropInactive active) w1 (map fst (chunks w1)))"

text \<open>\<open>World.update\<close>, without the clouds (they touch no field modelled here).\<close>

definition World_update :: "env \<Rightarrow> real \<Rightarrow> vec3 \<Rightarrow> world \<Rightarrow> world" where
  "World_update e deltaTime playerPosition w =
     (let currentChunkX = \<lfloor>fst playerPosition / chunkSize\<rfloor>;
          currentChunkZ = \<lfloor>snd (snd playerPosition) / chunkSize\<rfloor>;
          currentChunkCoords = (currentChunkX, currentChunkZ);
          w1 = (if lastPlayerChunkCoords w \<noteq> Some currentChunkCoords
                then updateChunksAroundPlayer e currentChunkX currentChunkZ
                       (w\<lparr>lastPlayerChunkCoords := Some currentChunkCoords\<rparr>)
                else w)
      in w1\<lparr>objects := map (node_update deltaTime) (objects w1)\<rparr>)"

text \<open>\<open>checkInteraction\<close> returns the first node in range that can be interacted with.\<close>

definition checkInteraction :: "world \<Rightarrow> vec3 \<Rightarrow> real \<Rightarrow> nat option" where
  "checkInteraction w p radius =
     (case filter (\<lambda>i. js_less (distanceTo p (position (objects w ! i))) radius
                         \<and> canInteract (objects w ! i)) [0 ..< length (objects w)] of
        [] \<Rightarrow> None
      | i # _ \<Rightarrow> Some i)"

definition getObjectsNear :: "world \<Rightarrow> vec3 \<Rightarrow> real \<Rightarrow> nat list" where
  "getObjectsNear w p radius =
     filter (\<lambda>i. js_less (distanceTo p (position (objects w ! i))) radius)
            [0 ..< length (objects w)]"

text \<open>
  The caller's side of \<open>interact\<close> (\<open>Game.checkInteractions\<close> calls it on the node that
  \<open>checkInteraction\<close> returned) at time \<open>now\<close>, on the node of index \<open>i\<close> of the registry
  (an index outside the registry names no node: nothing happens), and the firing of the
  respawn timers that are due at time \<open>now\<close>.
\<close>

definition interactAt :: "real \<Rightarrow> nat \<Rightarrow> world \<Rightarrow> (resource \<times> int) option \<times> world" where
  "interactAt now i w =
     (if i < length (objects w)
      then (case interact (objects w ! i) of
              (reward, n', t) \<Rightarrow>
                (reward, w\<lparr>objects := (objects w)[i := n'],
                           timers := (case t of None \<Rightarrow> timers w
                                      | Some delay \<Rightarrow> timers w @ [(now + delay, i)])\<rparr>))
      else (None, w))"

definition dueTimers :: "real \<Rightarrow> world \<Rightarrow> (real \<times> nat) list" where
  "dueTimers now w = filter (\<lambda>t. fst t \<le> now) (timers w)"

definition fireRespawn :: "world \<Rightarrow> real \<times> nat \<Rightarrow> world" where
  "fireRespawn w t = w\<lparr>objects := (objects w)[snd t := respawn (objects w ! snd t)]\<rparr>"

definition runTimers :: "real \<Rightarrow> world \<Rightarrow> world" where
  "runTimers now w =
     foldl fireRespawn (w\<lparr>timers := filter (\<lambda>t. \<not> fst t \<le> now) (timers w)\<rparr>) (dueTimers now w)"

text \<open>
  The worlds the game can be in: the constructor's world, and whatever \<open>World.update\<close>, an
  interaction with a registered node, or the firing of due respawn timers make of one.
\<close>

inductive reachable :: "env \<Rightarrow> world \<Rightarrow> bool" for e :: env where
  reach_new: "reachable e (newWorld withPhysics)"
| reach_update: "reachable e w \<Longrightarrow> reachable e (World_update e deltaTime playerPosition w)"
| reach_interact: "reachable e w \<Longrightarrow> i < length (objects w) \<Longrightarrow> reachable e (snd (interactAt now i w))"
| reach_timers: "reachable e w \<Longrightarrow> reachable e (runTimers now w)"

section \<open>Damage intake: \<open>AnimalUnit\<close> and the objective\<close>

text \<open>\<open>AnimalUnit.takeDamage\<close> and \<open>isDead\<close> (the health bar is presentation).\<close>

record animalUnit =
  ahealth :: real
  amaxHealth :: real

definition AnimalUnit_takeDamage :: "real \<Rightarrow> animalUnit \<Rightarrow> animalUnit" where
  "AnimalUnit_takeDamage amount u =
     (let u1 = u\<lparr>ahealth := ahealth u - amount\<rparr>
      in if ahealth u1 \<le> 0 then u1\<lparr>ahealth := 0\<rparr> else u1)"

definition AnimalUnit_isDead :: "animalUnit \<Rightarrow> bool" where
  "AnimalUnit_isDead u = (ahealth u \<le> 0)"

text \<open>
  The objective of \<open>Game.createObjective\<close>, together with the number of times
  \<open>Game.objectiveDestroyed\<close> has run (each run logs the game over and appends one more
  game-over overlay to the document).
\<close>

record objective =
  ohealth :: real
  omaxHealth :: real
  destroyedEvents :: nat

definition newObjective :: objective where
  "newObjective = \<lparr>ohealth = 1000, omaxHealth = 1000, destroyedEvents = 0\<rparr>"

definition objectiveDestroyed :: "objective \<Rightarrow> objective" where
  "objectiveDestroyed ob = ob\<lparr>destroyedEvents := destroyedEvents ob + 1\<rparr>"

definition objective_takeDamage :: "real \<Rightarrow> objective \<Rightarrow> real \<times> objective" where
  "objective_takeDamage amount ob =
     (let ob1 = ob\<lparr>ohealth := ohealth ob - amount\<rparr>;
          ob2 = ob1\<lparr>ohealth := max 0 (ohealth ob1)\<rparr>;
          ob3 = (if ohealth ob2 \<le> 0 then objectiveDestroyed ob2 else ob2)
      in (ohealth ob3, ob3))"

definition objective_isDestroyed :: "objective \<Rightarrow> bool" where
  "objective_isDestroyed ob = (ohealth ob \<le> 0)"

section \<open>Hostile agents and the wave director: \<open>EnemyUnit\<close>, \<open>EnemySystem\<close>\<close>

datatype estate = Chase | Attack | Wander | Die

text \<open>
  The fields of an \<open>EnemyUnit\<close> that the director and the damage code read or write;
  \<open>experience\<close> is \<open>attributes.experience\<close> (\<open>None\<close> when the attributes have no such entry,
  as for every type in \<open>enemyTypes\<close>).  An enemy is an object: the roster holds references
  to it, and the same enemy can be on the roster more than once.  References are numbers,
  and the objects live in the store \<open>units\<close> of the system state below.
\<close>

record enemyUnit =
  ehealth :: real
  emaxHealth :: real
  isAlive :: bool
  state :: estate
  experience :: "real option"

text \<open>The part of the \<open>attributes\<close> argument of the constructor that these fields come from.\<close>

record attributes =
  attr_health :: real
  attr_experience :: "real option"

text \<open>The assignments at the head of the constructor of \<open>EnemyUnit\<close>.\<close>

definition EnemyUnit_fields :: "attributes \<Rightarrow> enemyUnit" where
  "EnemyUnit_fields a = \<lparr>ehealth = attr_health a, emaxHealth = attr_health a, isAlive = True,
     state = Chase, experience = attr_experience a\<rparr>"

datatype event = EnemySpawned nat | EnemyRemoved nat

text \<open>The three closures that the director passes to \<open>setTimeout\<close>.\<close>

datatype callback =
    SpawnBurst    \<comment> \<open>\<open>() => this.spawnWaveEnemies(1)\<close> of \<open>startNextWave\<close>\<close>
  | SpawnAttempt  \<comment> \<open>the per-enemy closure of \<open>spawnWaveEnemies\<close>\<close>
  | NextBatch     \<comment> \<open>the closure stored in \<open>nextSpawnTimeout\<close>\<close>

text \<open>
  The director's fields; the store of enemy objects and the next free reference; the
  browser's queue of the director's pending timeouts (id, due time in milliseconds,
  closure); the inventory it credits (wood, stone; \<open>None\<close> when the director was built
  without an inventory system); the events published on the bus; and whether an
  \<open>EnemyUnit\<close> finds a game context (\<open>scene.userData.context\<close> or \<open>window.gameContext\<close>).
  \<open>context.enemies\<close>, \<open>context.systems.enemy.enemies\<close> and \<open>window.enemies\<close> are the very
  array \<open>enemies\<close> (\<open>registerEnemies\<close> and the assignment in the director's constructor,
  \<open>registerSystem\<close> in \<open>Game\<close>); nothing in the repository creates \<open>window.game\<close>.
\<close>

record enemySystem =
  enemies :: "nat list"
  units :: "nat \<rightharpoonup> enemyUnit"
  nextUnit :: nat
  waveNumber :: int
  enemiesRemaining :: int
  waveInProgress :: bool
  timeUntilNextWave :: real
  nextSpawnTimeout :: "nat option"
  waveStartTime :: "real option"
  lastSpawnTime :: "real option"
  pending :: "(nat \<times> real \<times> callback) list"
  nextTimer :: nat
  inventory :: "(real \<times> real) option"
  emitted :: "event list"
  contextFound :: bool

definition newEnemySystem :: "bool \<Rightarrow> bool \<Rightarrow> enemySystem" where
  "newEnemySystem withInventory withContext =
     \<lparr>enemies = [], units = Map.empty, nextUnit = 0,
      waveNumber = 0, enemiesRemaining = 0, waveInProgress = False,
      timeUntilNextWave = 5, nextSpawnTimeout = None, waveStartTime = None,
      lastSpawnTime = None, pending = [], nextTimer = 1,
      inventory = (if withInventory then Some (0, 0) else None), emitted = [],
      contextFound = withContext\<rparr>"

text \<open>Truthiness of a number that may be \<open>undefined\<close> or \<open>null\<close>.\<close>

fun truthy :: "'a::zero option \<Rightarrow> bool" where
  "truthy None = False"
| "truthy (Some v) = (v \<noteq> 0)"

definition setTimeout :: "real \<Rightarrow> callback \<Rightarrow> real \<Rightarrow> enemySystem \<Rightarrow> nat \<times> enemySystem" where
  "setTimeout now cb delay s =
     (nextTimer s, s\<lparr>pending := pending s @ [(nextTimer s, now + delay, cb)],
                     nextTimer := nextTimer s + 1\<rparr>)"

definition clearTimeout :: "nat \<Rightarrow> enemySystem \<Rightarrow> enemySystem" where
  "clearTimeout tid s = s\<lparr>pending := filter (\<lambda>t. fst t \<noteq> tid) (pending s)\<rparr>"

text \<open>\<open>InventorySystem.addItem\<close> for the two supported types.\<close>

fun addItem :: "resource \<Rightarrow> real \<Rightarrow> real \<times> real \<Rightarrow> real \<times> real" where
  "addItem Wood amount (wood, stone) = (wood + amount, stone)"
| "addItem Stone amount (wood, stone) = (wood, stone + amount)"

text \<open>
  \<open>GameContext.registerEnemy\<close>: an enemy that is not yet in the collection is pushed and
  announced with \<open>enemySpawned\<close>.
\<close>

definition registerEnemy :: "nat \<Rightarrow> enemySystem \<Rightarrow> enemySystem" where
  "registerEnemy x s =
     (if x \<in> set (enemies s) then s
      else s\<lparr>enemies := enemies s @ [x], emitted := emitted s @ [EnemySpawned x]\<rparr>)"

text \<open>
  \<open>new EnemyUnit(...)\<close> up to the end of \<open>createMesh\<close>: the object is allocated, its fields
  are set, and it registers itself with the context when it finds one (otherwise it looks
  for \<open>window.game\<close>, which does not exist, and only warns).
\<close>

definition EnemyUnit_new :: "attributes \<Rightarrow> enemySystem \<Rightarrow> nat \<times> enemySystem" where
  "EnemyUnit_new a s =
     (let x = nextUnit s;
          s1 = s\<lparr>units := (units s)(x \<mapsto> EnemyUnit_fields a), nextUnit := x + 1\<rparr>
      in (x, if contextFound s1 then registerEnemy x s1 else s1))"

text \<open>
  The lines of \<open>spawnEnemy\<close> after the construction: the enemy is pinned to the objective
  and put in state \<open>chase\<close>, pushed on the roster (whether or not it is there already) and
  announced.
\<close>

definition pushEnemy :: "nat \<Rightarrow> enemySystem \<Rightarrow> enemySystem" where
  "pushEnemy x s =
     s\<lparr>units := (case units s x of None \<Rightarrow> units s
                   | Some enemy \<Rightarrow> (units s)(x \<mapsto> enemy\<lparr>state := Chase\<rparr>)),
       enemies := enemies s @ [x],
       emitted := emitted s @ [EnemySpawned x]\<rparr>"

text \<open>
  The type, variation, position and attributes of a new enemy are drawn at random, and the
  whole body of \<open>spawnEnemy\<close> sits in a \<open>try\<close> whose \<open>catch\<close> returns \<open>null\<close>.  What a call
  does is therefore an input: it throws before the enemy has registered itself (while
  choosing the type and the position, or early in the constructor); it throws after the
  registration but before the push of \<open>spawnEnemy\<close> (in \<open>createHealthBar\<close>, or in the lines
  that aim the enemy at the objective); it throws after the push and the event (in
  \<open>showSpawnEffect\<close>); or it runs to the end and returns the enemy.
\<close>

datatype spawnOutcome =
    ThrowsBefore
  | ThrowsRegistered attributes
  | ThrowsPushed attributes
  | Constructs attributes

fun spawnEnemy :: "spawnOutcome \<Rightarrow> enemySystem \<Rightarrow> nat option \<times> enemySystem" where
  "spawnEnemy ThrowsBefore s = (None, s)"
| "spawnEnemy (ThrowsRegistered a) s = (None, snd (EnemyUnit_new a s))"
| "spawnEnemy (ThrowsPushed a) s = (case EnemyUnit_new a s of (x, s1) \<Rightarrow> (None, pushEnemy x s1))"
| "spawnEnemy (Constructs a) s = (case EnemyUnit_new a s of (x, s1) \<Rightarrow> (Some x, pushEnemy x s1))"

text \<open>
  \<open>EnemyUnit.notifyDeath\<close> of the enemy \<open>x\<close>: with a context, the event and one
  \<open>indexOf\<close>/\<open>splice\<close> through \<open>context.enemies\<close> and one through
  \<open>context.systems.enemy.enemies\<close>; in every case one more through \<open>window.enemies\<close>.
  Each removes the first occurrence that is left.
\<close>

definition notifyDeath :: "nat \<Rightarrow> enemySystem \<Rightarrow> enemySystem" where
  "notifyDeath x s =
     (let s1 = (if contextFound s
                then s\<lparr>emitted := emitted s @ [EnemyRemoved x],
                       enemies := remove1 x (remove1 x (enemies s))\<rparr>
                else s)
      in s1\<lparr>enemies := remove1 x (enemies s1)\<rparr>)"

text \<open>
  \<open>EnemyUnit.die\<close> of the enemy \<open>x\<close>.  \<open>r1\<close> and \<open>r2\<close> are the two random draws of the loot.
  The result is the loot (experience, resource type, amount), \<open>None\<close> for the \<open>undefined\<close> of
  the early return.  The death animation and the disposal that ends it touch only the
  rendering.  A reference that names no object does nothing.
\<close>

definition die :: "real \<Rightarrow> real \<Rightarrow> nat \<Rightarrow> enemySystem \<Rightarrow> (real \<times> resource \<times> int) option \<times> enemySystem" where
  "die r1 r2 x s =
     (case units s x of
        None \<Rightarrow> (None, s)
      | Some this \<Rightarrow>
          if \<not> isAlive this then (None, s)
          else
            let s1 = s\<lparr>units := (units s)(x \<mapsto> this\<lparr>isAlive := False, state := Die\<rparr>)\<rparr>;
                s2 = notifyDeath x s1
            in (Some (case experience this of None \<Rightarrow> 10 | Some v \<Rightarrow> (if v = 0 then 10 else v),
                      if r1 < 6 / 10 then Wood else Stone,
                      \<lfloor>r2 * 3\<rfloor> + 1),
                s2))"

text \<open>\<open>EnemyUnit.takeDamage\<close> of the enemy \<open>x\<close>; the number returned is the damage dealt.\<close>

definition EnemyUnit_takeDamage :: "real \<Rightarrow> real \<Rightarrow> real \<Rightarrow> nat \<Rightarrow> enemySystem \<Rightarrow> real \<times> enemySystem" where
  "EnemyUnit_takeDamage r1 r2 amount x s =
     (case units s x of
        None \<Rightarrow> (0, s)
      | Some this \<Rightarrow>
          if \<not> isAlive this then (0, s)
          else
            let this1 = this\<lparr>ehealth := ehealth this - amount\<rparr>;
                s1 = s\<lparr>units := (units s)(x \<mapsto> this1)\<rparr>
            in if ehealth this1 \<le> 0
               then let s2 = s1\<lparr>units := (units s1)(x \<mapsto> this1\<lparr>isAlive := False, state := Die\<rparr>)\<rparr>
                    in (amount, snd (die r1 r2 x s2))
               else (amount, s1))"

text \<open>The per-enemy closure of \<open>spawnWaveEnemies\<close>.\<close>

definition spawnAttempt :: "spawnOutcome \<Rightarrow> enemySystem \<Rightarrow> enemySystem" where
  "spawnAttempt outcome s =
     (let s1 = snd (spawnEnemy outcome s)
      in s1\<lparr>enemiesRemaining := enemiesRemaining s1 - 1\<rparr>)"

text \<open>
  \<open>spawnWaveEnemies(count)\<close> at time \<open>now\<close> (milliseconds); \<open>r\<close> is the random draw of the
  delay of the next batch.
\<close>

definition scheduleAttempt :: "real \<Rightarrow> enemySystem \<Rightarrow> nat \<Rightarrow> enemySystem" where
  "scheduleAttempt now s i =
     (if enemiesRemaining s > 0 then snd (setTimeout now SpawnAttempt (of_nat i * 800) s) else s)"

definition spawnWaveEnemies :: "real \<Rightarrow> real \<Rightarrow> int \<Rightarrow> enemySystem \<Rightarrow> enemySystem" where
  "spawnWaveEnemies now r count s =
     (let s1 = s\<lparr>lastSpawnTime := Some (now / 1000)\<rparr>;
          actualCount = min count (enemiesRemaining s1);
          s2 = foldl (scheduleAttempt now) s1 [0 ..< nat actualCount]
      in if enemiesRemaining s2 > 0
         then let s3 = (case nextSpawnTimeout s2 of
                          Some tid \<Rightarrow> if tid \<noteq> 0 then clearTimeout tid s2 else s2
                        | None \<Rightarrow> s2);
                  (tid', s4) = setTimeout now NextBatch (4000 + r * 4000) s3
              in s4\<lparr>nextSpawnTimeout := Some tid'\<rparr>
         else s2)"

definition scheduleBurst :: "real \<Rightarrow> enemySystem \<Rightarrow> nat \<Rightarrow> enemySystem" where
  "scheduleBurst now s i =
     (if enemiesRemaining s > 0 then snd (setTimeout now SpawnBurst (of_nat i * 500) s) else s)"

definition startNextWave :: "real \<Rightarrow> enemySystem \<Rightarrow> enemySystem" where
  "startNextWave now s =
     (let s1 = s\<lparr>waveNumber := waveNumber s + 1, waveInProgress := True\<rparr>;
          s2 = s1\<lparr>waveStartTime := Some (now / 1000), lastSpawnTime := Some (now / 1000)\<rparr>;
          s3 = s2\<lparr>enemiesRemaining := min (5 + waveNumber s2 * 2) 30\<rparr>;
          initialSpawns = min (3 + waveNumber s3 div 2) 10
      in foldl (scheduleBurst now) s3 [0 ..< nat initialSpawns])"

text \<open>The closure stored in \<open>nextSpawnTimeout\<close>.\<close>

definition nextBatch :: "real \<Rightarrow> real \<Rightarrow> enemySystem \<Rightarrow> enemySystem" where
  "nextBatch now r s =
     (let s1 = s\<lparr>nextSpawnTimeout := None\<rparr>;
          spawnCount = min (1 + waveNumber s1 div 3) (min (enemiesRemaining s1) 3)
      in spawnWaveEnemies now r spawnCount s1)"

text \<open>
  The browser fires the pending timeout \<open>tid\<close> at time \<open>now\<close>, once it is due: the entry
  leaves the queue and its closure runs.  \<open>outcome\<close> is what \<open>spawnEnemy\<close> does if the
  closure calls it.
\<close>

fun runCallback :: "real \<Rightarrow> real \<Rightarrow> spawnOutcome \<Rightarrow> callback \<Rightarrow> enemySystem \<Rightarrow> enemySystem" where
  "runCallback now r outcome SpawnBurst s = spawnWaveEnemies now r 1 s"
| "runCallback now r outcome SpawnAttempt s = spawnAttempt outcome s"
| "runCallback now r outcome NextBatch s = nextBatch now r s"

definition fireTimer :: "real \<Rightarrow> real \<Rightarrow> spawnOutcome \<Rightarrow> nat \<Rightarrow> enemySystem \<Rightarrow> enemySystem" where
  "fireTimer now r outcome tid s =
     (case filter (\<lambda>t. fst t = tid) (pending s) of
        [] \<Rightarrow> s
      | (_, due, cb) # _ \<Rightarrow>
          if due \<le> now then runCallback now r outcome cb (clearTimeout tid s) else s)"

definition completeWave :: "enemySystem \<Rightarrow> enemySystem" where
  "completeWave s =
     (let s1 = (case nextSpawnTimeout s of
                  Some tid \<Rightarrow> if tid \<noteq> 0 then (clearTimeout tid s)\<lparr>nextSpawnTimeout := None\<rparr> else s
                | None \<Rightarrow> s);
          s2 = s1\<lparr>enemies := []\<rparr>;
          woodReward = waveNumber s2 * 3 + enemiesRemaining s2 * 2;
          stoneReward = waveNumber s2 + enemiesRemaining s2;
          s3 = s2\<lparr>inventory := map_option (addItem Stone (of_int stoneReward) \<circ> addItem Wood (of_int woodReward))
                                          (inventory s2)\<rparr>
      in s3\<lparr>waveInProgress := False,
            timeUntilNextWave := 20 + of_int (waveNumber s3) * 2,
            enemiesRemaining := 0\<rparr>)"

text \<open>
  \<open>EnemySystem.update\<close>, in the order of the source: the 60 second watchdog, the wave
  mechanics, the check of a countdown at zero, the 30 second watchdog (\<open>r\<close> is the random
  draw of the \<open>spawnWaveEnemies\<close> it may call); then the removal of invalid enemies and the
  loop over the roster from its last index down.
\<close>

definition waveWatchdog :: "real \<Rightarrow> enemySystem \<Rightarrow> enemySystem" where
  "waveWatchdog now s =
     (if waveInProgress s \<and> truthy (waveStartTime s)
      then let waveElapsedTime = now / 1000 - the (waveStartTime s)
           in if waveElapsedTime > 60 \<and> length (enemies s) = 0
              then s\<lparr>enemiesRemaining := 0\<rparr> else s
      else s)"

definition waveMechanics :: "real \<Rightarrow> real \<Rightarrow> enemySystem \<Rightarrow> enemySystem" where
  "waveMechanics now deltaTime s =
     (if waveInProgress s
      then (if length (enemies s) = 0 \<and> enemiesRemaining s = 0 then completeWave s else s)
      else let s1 = s\<lparr>timeUntilNextWave := timeUntilNextWave s - deltaTime\<rparr>
           in if timeUntilNextWave s1 \<le> 0 then startNextWave now s1 else s1)"

definition stuckCountdown :: "real \<Rightarrow> enemySystem \<Rightarrow> enemySystem" where
  "stuckCountdown now s =
     (if timeUntilNextWave s \<le> 0 \<and> \<not> waveInProgress s then startNextWave now s else s)"

definition spawnWatchdog :: "real \<Rightarrow> real \<Rightarrow> enemySystem \<Rightarrow> enemySystem" where
  "spawnWatchdog now r s =
     (if waveInProgress s \<and> truthy (nextSpawnTimeout s) \<and> truthy (lastSpawnTime s)
      then let timeSinceLastSpawn = now / 1000 - the (lastSpawnTime s)
           in if timeSinceLastSpawn > 30
              then let s1 = (clearTimeout (the (nextSpawnTimeout s)) s)\<lparr>nextSpawnTimeout := None\<rparr>
                   in if enemiesRemaining s1 > 0
                      then spawnWaveEnemies now r (enemiesRemaining s1) s1
                      else if length (enemies s1) = 0 then completeWave s1 else s1
              else s
      else s)"

text \<open>
  The first loop removes (and disposes) every roster entry whose enemy is missing or has
  \<open>isAlive\<close> false; it emits nothing and collects nothing.
\<close>

definition valid :: "enemySystem \<Rightarrow> nat \<Rightarrow> bool" where
  "valid s x = (case units s x of None \<Rightarrow> False | Some enemy \<Rightarrow> isAlive enemy)"

definition cleanupInvalid :: "enemySystem \<Rightarrow> enemySystem" where
  "cleanupInvalid s = s\<lparr>enemies := filter (valid s) (enemies s)\<rparr>"

text \<open>
  One round of the second loop, at index \<open>i\<close>.  A missing enemy is spliced out.  A dead
  enemy is asked for its loot with \<open>die()\<close>; the loot, if any, would go to
  \<open>inventorySystem.addResource\<close>, which \<open>InventorySystem\<close> does not define, so that call
  throws and the \<open>catch\<close> only logs; the entry is then spliced out and \<open>enemyRemoved\<close> is
  emitted.  A live enemy is pinned to the objective, forced into \<open>chase\<close> unless it
  attacks, and updated by its own \<open>update\<close>, which is the parameter \<open>ai\<close> (movement and
  attacks on the objective).  The velocity boost that the loop gives a slow enemy is left
  out: positions and velocities of enemies are not part of the model.
\<close>

definition splice1 :: "nat \<Rightarrow> 'a list \<Rightarrow> 'a list" where
  "splice1 i xs = take i xs @ drop (Suc i) xs"

definition updateEnemy :: "(real \<Rightarrow> enemyUnit \<Rightarrow> enemyUnit) \<Rightarrow> real \<Rightarrow> real \<Rightarrow> real \<Rightarrow> enemySystem \<Rightarrow> nat \<Rightarrow> enemySystem" where
  "updateEnemy ai deltaTime r1 r2 s i =
     (if i < length (enemies s)
      then let x = enemies s ! i in
           case units s x of
             None \<Rightarrow> s\<lparr>enemies := splice1 i (enemies s)\<rparr>
           | Some enemy \<Rightarrow>
               if \<not> isAlive enemy
               then let (loot, s1) = die r1 r2 x s;
                        s2 = s1\<lparr>enemies := splice1 i (enemies s1)\<rparr>
                    in s2\<lparr>emitted := emitted s2 @ [EnemyRemoved x]\<rparr>
               else let enemy1 = (if state enemy \<noteq> Attack then enemy\<lparr>state := Chase\<rparr> else enemy)
                    in s\<lparr>units := (units s)(x \<mapsto> ai deltaTime enemy1)\<rparr>
      else s)"

text \<open>The first part of \<open>update\<close>: the two watchdogs and the wave mechanics between them.\<close>

definition director :: "real \<Rightarrow> real \<Rightarrow> real \<Rightarrow> enemySystem \<Rightarrow> enemySystem" where
  "director now deltaTime r s =
     spawnWatchdog now r (stuckCountdown now (waveMechanics now deltaTime (waveWatchdog now s)))"

definition EnemySystem_update ::
  "(real \<Rightarrow> enemyUnit \<Rightarrow> enemyUnit) \<Rightarrow> real \<Rightarrow> real \<Rightarrow> real \<Rightarrow> real \<Rightarrow> real \<Rightarrow> enemySystem \<Rightarrow> enemySystem" where
  "EnemySystem_update ai now deltaTime r r1 r2 s =
     (let s4 = director now deltaTime r s;
          s5 = cleanupInvalid s4
      in foldl (updateEnemy ai deltaTime r1 r2) s5 (rev [0 ..< length (enemies s5)]))"


text \<open>
  The invariant of the timer queue: timeout ids are positive, smaller than the next id to
  be handed out, and pairwise distinct; every pending batch closure is the one whose id is
  stored in \<open>nextSpawnTimeout\<close>; and the wave number is not negative.
\<close>

definition timersOk :: "enemySystem \<Rightarrow> bool" where
  "timersOk s \<longleftrightarrow>
     0 < nextTimer s \<and> 0 \<le> waveNumber s \<and>
     (\<forall>t \<in> set (pending s). 0 < fst t \<and> fst t < nextTimer s) \<and>
     distinct (map fst (pending s)) \<and>
     (\<forall>t \<in> set (pending s). snd (snd t) = NextBatch \<longrightarrow> nextSpawnTimeout s = Some (fst t)) \<and>
     (\<forall>tid. nextSpawnTimeout s = Some tid \<longrightarrow> 0 < tid \<and> tid < nextTimer s)"

section \<open>Invariants of the reachable worlds\<close>

text \<open>
  The residency invariant: the keys of the chunk map are pairwise distinct, and they are the
  keys of the square around the chunk the observer was last seen in (none before the first
  update).
\<close>

definition resident :: "world \<Rightarrow> bool" where
  "resident w \<longleftrightarrow> distinct (map fst (chunks w)) \<and>
     (case lastPlayerChunkCoords w of
        None \<Rightarrow> chunks w = []
      | Some c \<Rightarrow> fst ` set (chunks w) = set (activeChunks (fst c) (snd c)))"

text \<open>No resident chunk has a stored height grid.\<close>

definition noHeightMaps :: "world \<Rightarrow> bool" where
  "noHeightMaps w \<longleftrightarrow> (\<forall>k c. map_of (chunks w) k = Some c \<longrightarrow> heightMap c = None)"

section \<open>Chunk residency\<close>

lemma chunks_generateTerrainForChunk [simp]:
  "chunks (snd (generateTerrainForChunk e c w)) = chunks w"
  by (simp add: generateTerrainForChunk_def Let_def split: option.splits)

lemma chunks_addObjects [simp]:
  "chunks (snd (addObjects e k n wx wz cw)) = chunks (snd cw)"
proof (induction n arbitrary: cw)
  case 0 show ?case by simp
next
  case (Suc n)
  obtain c w where cw: "cw = (c, w)" by (cases cw)
  show ?case unfolding cw by (simp add: Let_def Suc.IH)
qed

lemma chunks_populateChunk [simp]:
  "chunks (snd (populateChunk e c w)) = chunks w"
  by (simp add: populateChunk_def Let_def)

lemma chunks_generateChunk:
  "\<exists>c. chunks (generateChunk e k w) = AList.update k c (chunks w)"
  unfolding generateChunk_def Let_def split_beta by simp blast

lemma keys_generateChunk:
  "fst ` set (chunks (generateChunk e k w)) = insert k (fst ` set (chunks w))"
proof -
  obtain c where "chunks (generateChunk e k w) = AList.update k c (chunks w)"
    using chunks_generateChunk by blast
  then show ?thesis by (simp add: dom_update)
qed

lemma distinct_generateChunk:
  "distinct (map fst (chunks w)) \<Longrightarrow> distinct (map fst (chunks (generateChunk e k w)))"
  using chunks_generateChunk [of e k w] by (auto simp: distinct_update)

lemma keys_ensureChunk:
  "fst ` set (chunks (ensureChunk e w k)) = insert k (fst ` set (chunks w))"
  by (auto simp: ensureChunk_def keys_generateChunk map_of_eq_None_iff)

lemma distinct_ensureChunk:
  "distinct (map fst (chunks w)) \<Longrightarrow> distinct (map fst (chunks (ensureChunk e w k)))"
  by (simp add: ensureChunk_def distinct_generateChunk)

lemma foldl_ensureChunk:
  "fst ` set (chunks (foldl (ensureChunk e) w ks)) = set ks \<union> fst ` set (chunks w)"
  by (induction ks arbitrary: w) (simp_all add: keys_ensureChunk)

lemma distinct_foldl_ensureChunk:
  "distinct (map fst (chunks w)) \<Longrightarrow> distinct (map fst (chunks (foldl (ensureChunk e) w ks)))"
  by (induction ks arbitrary: w) (auto simp: distinct_ensureChunk)

lemma chunks_foldl_disposeObject [simp]:
  "chunks (foldl disposeObject w is) = chunks w"
  by (induction "is" arbitrary: w) (auto simp: disposeObject_def split: option.splits)

lemma chunks_removeChunk:
  "chunks (removeChunk k w) = AList.delete k (chunks w)"
proof (cases "map_of (chunks w) k")
  case None
  then have "k \<notin> fst ` set (chunks w)" by (simp add: map_of_eq_None_iff)
  then have "AList.delete k (chunks w) = chunks w"
    by (rule delete_id)
  with None show ?thesis by (simp add: removeChunk_def)
next
  case (Some c)
  then show ?thesis
    by (simp add: removeChunk_def Let_def split: option.splits)
qed

lemma keys_dropInactive:
  "map fst (chunks (dropInactive a w k)) =
     (if k \<in> set a then map fst (chunks w) else removeAll k (map fst (chunks w)))"
  by (simp add: dropInactive_def chunks_removeChunk delete_keys)

lemma keys_foldl_dropInactive:
  "map fst (chunks (foldl (dropInactive a) w ks)) =
     filter (\<lambda>k. k \<in> set a \<or> k \<notin> set ks) (map fst (chunks w))"
proof (induction ks arbitrary: w)
  case Nil show ?case by simp
next
  case (Cons k ks)
  show ?case
    by (simp add: Cons.IH keys_dropInactive removeAll_filter_not_eq) (auto intro: filter_cong)
qed

lemma keys_updateChunksAroundPlayer:
  "fst ` set (chunks (updateChunksAroundPlayer e pX pZ w)) = set (activeChunks pX pZ)"
proof -
  let ?w1 = "foldl (ensureChunk e) w (activeChunks pX pZ)"
  have "set (map fst (chunks (updateChunksAroundPlayer e pX pZ w))) =
        {k \<in> fst ` set (chunks ?w1). k \<in> set (activeChunks pX pZ)}"
    by (simp add: updateChunksAroundPlayer_def Let_def keys_foldl_dropInactive del: set_map) auto
  then show ?thesis by (auto simp: foldl_ensureChunk)
qed

lemma distinct_updateChunksAroundPlayer:
  "distinct (map fst (chunks w)) \<Longrightarrow> distinct (map fst (chunks (updateChunksAroundPlayer e pX pZ w)))"
  by (simp add: updateChunksAroundPlayer_def Let_def keys_foldl_dropInactive distinct_foldl_ensureChunk)

lemma in_activeChunks:
  "(x, z) \<in> set (activeChunks pX pZ) \<longleftrightarrow> \<bar>x - pX\<bar> \<le> viewDistance \<and> \<bar>z - pZ\<bar> \<le> viewDistance"
proof -
  have "(x, z) \<in> set (activeChunks pX pZ) \<longleftrightarrow>
        x \<in> {pX - viewDistance .. pX + viewDistance} \<and> z \<in> {pZ - viewDistance .. pZ + viewDistance}"
    by (fastforce simp: activeChunks_def)
  also have "\<dots> \<longleftrightarrow> \<bar>x - pX\<bar> \<le> viewDistance \<and> \<bar>z - pZ\<bar> \<le> viewDistance"
    by auto
  finally show ?thesis .
qed

lemma set_activeChunks:
  "set (activeChunks pX pZ) = {(x, z). \<bar>x - pX\<bar> \<le> viewDistance \<and> \<bar>z - pZ\<bar> \<le> viewDistance}"
  using in_activeChunks by auto

lemma distinct_activeChunks: "distinct (activeChunks pX pZ)"
  unfolding activeChunks_def
  by (rule distinct_concat) (auto simp: distinct_map inj_on_def)

lemma length_activeChunks: "length (activeChunks pX pZ) = 25"
  by (simp add: activeChunks_def viewDistance_def length_concat comp_def sum_list_triv)

lemma chunks_World_update:
  "chunks (World_update e dt p w) =
     (if lastPlayerChunkCoords w \<noteq> Some (\<lfloor>fst p / chunkSize\<rfloor>, \<lfloor>snd (snd p) / chunkSize\<rfloor>)
      then chunks (updateChunksAroundPlayer e \<lfloor>fst p / chunkSize\<rfloor> \<lfloor>snd (snd p) / chunkSize\<rfloor>
                     (w\<lparr>lastPlayerChunkCoords := Some (\<lfloor>fst p / chunkSize\<rfloor>, \<lfloor>snd (snd p) / chunkSize\<rfloor>)\<rparr>))
      else chunks w)"
  by (simp add: World_update_def Let_def)

lemma last_generateTerrainForChunk [simp]:
  "lastPlayerChunkCoords (snd (generateTerrainForChunk e c w)) = lastPlayerChunkCoords w"
  by (simp add: generateTerrainForChunk_def Let_def split: option.splits)

lemma last_addObjects [simp]:
  "lastPlayerChunkCoords (snd (addObjects e k n wx wz cw)) = lastPlayerChunkCoords (snd cw)"
proof (induction n arbitrary: cw)
  case 0 show ?case by simp
next
  case (Suc n)
  obtain c w where cw: "cw = (c, w)" by (cases cw)
  show ?case unfolding cw by (simp add: Let_def Suc.IH)
qed

lemma last_generateChunk [simp]:
  "lastPlayerChunkCoords (generateChunk e k w) = lastPlayerChunkCoords w"
  by (simp add: generateChunk_def populateChunk_def Let_def split_beta)

lemma last_foldl_ensureChunk [simp]:
  "lastPlayerChunkCoords (foldl (ensureChunk e) w ks) = lastPlayerChunkCoords w"
  by (induction ks arbitrary: w) (simp_all add: ensureChunk_def)

lemma last_foldl_disposeObject [simp]:
  "lastPlayerChunkCoords (foldl disposeObject w is) = lastPlayerChunkCoords w"
  by (induction "is" arbitrary: w) (auto simp: disposeObject_def split: option.splits)

lemma last_removeChunk [simp]:
  "lastPlayerChunkCoords (removeChunk k w) = lastPlayerChunkCoords w"
  by (simp add: removeChunk_def Let_def split: option.splits)

lemma last_foldl_dropInactive [simp]:
  "lastPlayerChunkCoords (foldl (dropInactive a) w ks) = lastPlayerChunkCoords w"
  by (induction ks arbitrary: w) (simp_all add: dropInactive_def)

lemma last_World_update:
  "lastPlayerChunkCoords (World_update e dt p w) = Some (\<lfloor>fst p / chunkSize\<rfloor>, \<lfloor>snd (snd p) / chunkSize\<rfloor>)"
  by (simp add: World_update_def Let_def updateChunksAroundPlayer_def)

lemma resident_new: "resident (newWorld ph)"
  by (simp add: resident_def newWorld_def)

lemma resident_update: "resident w \<Longrightarrow> resident (World_update e dt p w)"
proof -
  assume r: "resident w"
  let ?c = "(\<lfloor>fst p / chunkSize\<rfloor>, \<lfloor>snd (snd p) / chunkSize\<rfloor>)"
  show ?thesis
  proof (cases "lastPlayerChunkCoords w = Some ?c")
    case True
    with r show ?thesis
      by (simp add: resident_def chunks_World_update last_World_update)
  next
    case False
    from r have "distinct (map fst (chunks (w\<lparr>lastPlayerChunkCoords := Some ?c\<rparr>)))"
      by (simp add: resident_def)
    then have "distinct (map fst (chunks (updateChunksAroundPlayer e (fst ?c) (snd ?c)
                 (w\<lparr>lastPlayerChunkCoords := Some ?c\<rparr>))))"
      by (rule distinct_updateChunksAroundPlayer)
    with False show ?thesis
      by (simp add: resident_def chunks_World_update last_World_update keys_updateChunksAroundPlayer)
  qed
qed

lemma resident_interactAt: "resident w \<Longrightarrow> resident (snd (interactAt now i w))"
  by (auto simp: resident_def interactAt_def split: prod.splits option.splits)

lemma chunks_foldl_fireRespawn [simp]: "chunks (foldl fireRespawn w ts) = chunks w"
  by (induction ts arbitrary: w) (simp_all add: fireRespawn_def)

lemma last_foldl_fireRespawn [simp]:
  "lastPlayerChunkCoords (foldl fireRespawn w ts) = lastPlayerChunkCoords w"
  by (induction ts arbitrary: w) (simp_all add: fireRespawn_def)

lemma chunks_runTimers [simp]: "chunks (runTimers now w) = chunks w"
  by (simp add: runTimers_def)

lemma last_runTimers [simp]: "lastPlayerChunkCoords (runTimers now w) = lastPlayerChunkCoords w"
  by (simp add: runTimers_def)

lemma reachable_resident: "reachable e w \<Longrightarrow> resident w"
proof (induction rule: reachable.induct)
  case (reach_new withPhysics)
  show ?case by (rule resident_new)
next
  case (reach_update w deltaTime playerPosition)
  then show ?case by (simp add: resident_update)
next
  case (reach_interact w i now)
  then show ?case by (simp add: resident_interactAt)
next
  case (reach_timers w now)
  then show ?case by (simp add: resident_def split: option.splits)
qed

text \<open>
  Claim C3.  In every world the game can be in, once \<open>World.update\<close> has run with the
  observer at any position \<open>p\<close>, the keys of the chunk map are pairwise distinct (each key
  is resident once), they are exactly the keys of the square of side \<open>2 * viewDistance + 1\<close>
  around the chunk that contains \<open>p\<close>, and the map holds \<open>(2 * viewDistance + 1)\<^sup>2\<close>
  chunks.
\<close>

theorem chunk_residency:
  assumes "reachable e w"
  shows "distinct (map fst (chunks (World_update e deltaTime p w))) \<and>
         set (map fst (chunks (World_update e deltaTime p w))) =
           {(x, z). \<bar>x - \<lfloor>fst p / chunkSize\<rfloor>\<bar> \<le> viewDistance \<and>
                    \<bar>z - \<lfloor>snd (snd p) / chunkSize\<rfloor>\<bar> \<le> viewDistance} \<and>
         length (chunks (World_update e deltaTime p w)) = (2 * nat viewDistance + 1)\<^sup>2"
proof -
  let ?w = "World_update e deltaTime p w"
  have r: "resident ?w"
    using assms by (simp add: reachable_resident resident_update)
  have d: "distinct (map fst (chunks ?w))" using r by (simp add: resident_def)
  have k: "fst ` set (chunks ?w) = set (activeChunks \<lfloor>fst p / chunkSize\<rfloor> \<lfloor>snd (snd p) / chunkSize\<rfloor>)"
    using r by (simp add: resident_def last_World_update)
  have "length (chunks ?w) = card (fst ` set (chunks ?w))"
    using d by (metis distinct_card length_map set_map)
  also have "\<dots> = length (activeChunks \<lfloor>fst p / chunkSize\<rfloor> \<lfloor>snd (snd p) / chunkSize\<rfloor>)"
    unfolding k by (simp add: distinct_card distinct_activeChunks)
  finally have l: "length (chunks ?w) = 25" by (simp add: length_activeChunks)
  show ?thesis using d k l by (simp add: set_activeChunks viewDistance_def)
qed


subsection \<open>Eviction\<close>

lemma disposeObject_id [simp]: "disposeObject w i = w"
  by (cases "kind (objects w ! i)") (simp_all add: disposeObject_def)

lemma foldl_disposeObject_id [simp]: "foldl disposeObject w is = w"
  by (induction "is") simp_all

lemma objects_removeChunk: "objects (removeChunk k w) = objects w"
  by (simp add: removeChunk_def Let_def split: option.splits)

lemma timers_removeChunk: "timers (removeChunk k w) = timers w"
  by (simp add: removeChunk_def Let_def split: option.splits)

text \<open>
  Claim C10.  Evicting a chunk leaves the registry \<open>World.objects\<close> as it was, so
  \<open>checkInteraction\<close> and \<open>getObjectsNear\<close> answer after the eviction exactly what they
  answered before it, nodes of the evicted chunk included.
\<close>

theorem eviction_keeps_registry:
  "objects (removeChunk k w) = objects w \<and>
   checkInteraction (removeChunk k w) p radius = checkInteraction w p radius \<and>
   getObjectsNear (removeChunk k w) p radius = getObjectsNear w p radius"
  by (simp add: checkInteraction_def getObjectsNear_def objects_removeChunk)



lemma map_of_removeChunk: "map_of (chunks (removeChunk k w)) = (map_of (chunks w))(k := None)"
  by (rule ext) (simp add: chunks_removeChunk delete_conv)

lemma objects_foldl_fireRespawn:
  "objects (foldl fireRespawn w ts) =
     foldl (\<lambda>os t. os[snd t := respawn (os ! snd t)]) (objects w) ts"
  by (induction ts arbitrary: w) (simp_all add: fireRespawn_def)

lemma objects_runTimers_cong:
  assumes "objects w' = objects w" and "timers w' = timers w"
  shows "objects (runTimers now w') = objects (runTimers now w)"
  unfolding runTimers_def dueTimers_def objects_foldl_fireRespawn using assms by simp

text \<open>
  Claim C9, as amended.  Evicting a chunk removes its key from the chunk map, removes its
  terrain mesh from the scene and disposes it, and leaves the queue of respawn timers as
  it was: no timer is cancelled, and the timers that come due do to the nodes what they
  would have done without the eviction.
\<close>

theorem eviction_effects:
  "map_of (chunks (removeChunk k w)) k = None \<and>
   timers (removeChunk k w) = timers w \<and>
   objects (runTimers now (removeChunk k w)) = objects (runTimers now w) \<and>
   (\<forall>c m. map_of (chunks w) k = Some c \<and> terrain c = Some m \<longrightarrow>
      TerrainMesh m \<notin> set (scene (removeChunk k w)) \<and> m \<in> set (disposedMeshes (removeChunk k w)))"
proof (intro conjI allI impI)
  show "map_of (chunks (removeChunk k w)) k = None" by (simp add: map_of_removeChunk)
  show "timers (removeChunk k w) = timers w" by (rule timers_removeChunk)
  show "objects (runTimers now (removeChunk k w)) = objects (runTimers now w)"
    by (rule objects_runTimers_cong) (simp_all add: objects_removeChunk timers_removeChunk)
next
  fix c m assume "map_of (chunks w) k = Some c \<and> terrain c = Some m"
  then show "TerrainMesh m \<notin> set (scene (removeChunk k w))"
    and "m \<in> set (disposedMeshes (removeChunk k w))"
    by (simp_all add: removeChunk_def Let_def split: option.splits)
qed

subsection \<open>Height queries\<close>

lemma heightMap_generateTerrainForChunk [simp]:
  "heightMap (fst (generateTerrainForChunk e c w)) = heightMap c"
  by (simp add: generateTerrainForChunk_def Let_def split: option.splits)

lemma heightMap_addObjects [simp]:
  "heightMap (fst (addObjects e k n wx wz cw)) = heightMap (fst cw)"
proof (induction n arbitrary: cw)
  case 0 show ?case by simp
next
  case (Suc n)
  obtain c w where cw: "cw = (c, w)" by (cases cw)
  show ?case unfolding cw by (simp add: Let_def Suc.IH)
qed

lemma heightMap_populateChunk [simp]:
  "heightMap (fst (populateChunk e c w)) = heightMap c"
  by (simp add: populateChunk_def Let_def)

lemma generateChunk_chunks:
  "\<exists>c. heightMap c = None \<and> chunks (generateChunk e k w) = AList.update k c (chunks w)"
  unfolding generateChunk_def Let_def split_beta
  by (rule exI [where x = "fst (populateChunk e (fst (generateTerrainForChunk e
        \<lparr>terrain = None, cobjects = [], heightMap = None, chunkX = fst k, chunkZ = snd k\<rparr> w))
        (snd (generateTerrainForChunk e
        \<lparr>terrain = None, cobjects = [], heightMap = None, chunkX = fst k, chunkZ = snd k\<rparr> w)))"])
     simp

lemma noHeightMaps_generateChunk: "noHeightMaps w \<Longrightarrow> noHeightMaps (generateChunk e k w)"
proof -
  assume a: "noHeightMaps w"
  obtain c where c: "heightMap c = None" "chunks (generateChunk e k w) = AList.update k c (chunks w)"
    using generateChunk_chunks by blast
  show ?thesis using a c by (auto simp: noHeightMaps_def update_conv')
qed

lemma noHeightMaps_foldl_ensureChunk:
  "noHeightMaps w \<Longrightarrow> noHeightMaps (foldl (ensureChunk e) w ks)"
  by (induction ks arbitrary: w) (simp_all add: ensureChunk_def noHeightMaps_generateChunk)

lemma noHeightMaps_removeChunk: "noHeightMaps w \<Longrightarrow> noHeightMaps (removeChunk k w)"
  by (auto simp: noHeightMaps_def map_of_removeChunk split: if_splits)

lemma noHeightMaps_foldl_dropInactive:
  "noHeightMaps w \<Longrightarrow> noHeightMaps (foldl (dropInactive a) w ks)"
  by (induction ks arbitrary: w) (simp_all add: dropInactive_def noHeightMaps_removeChunk)

lemma noHeightMaps_cong: "chunks w' = chunks w \<Longrightarrow> noHeightMaps w \<Longrightarrow> noHeightMaps w'"
  by (simp add: noHeightMaps_def)

lemma noHeightMaps_World_update: "noHeightMaps w \<Longrightarrow> noHeightMaps (World_update e dt p w)"
proof -
  assume a: "noHeightMaps w"
  let ?c = "(\<lfloor>fst p / chunkSize\<rfloor>, \<lfloor>snd (snd p) / chunkSize\<rfloor>)"
  have "noHeightMaps (w\<lparr>lastPlayerChunkCoords := Some ?c\<rparr>)"
    using a by (simp add: noHeightMaps_def)
  then have "noHeightMaps (updateChunksAroundPlayer e (fst ?c) (snd ?c) (w\<lparr>lastPlayerChunkCoords := Some ?c\<rparr>))"
    by (simp add: updateChunksAroundPlayer_def Let_def noHeightMaps_foldl_dropInactive
        noHeightMaps_foldl_ensureChunk)
  then have "noHeightMaps (if lastPlayerChunkCoords w \<noteq> Some ?c
      then updateChunksAroundPlayer e (fst ?c) (snd ?c) (w\<lparr>lastPlayerChunkCoords := Some ?c\<rparr>) else w)"
    using a by simp
  then show ?thesis
    by (rule noHeightMaps_cong [rotated]) (simp add: chunks_World_update)
qed

lemma reachable_noHeightMaps: "reachable e w \<Longrightarrow> noHeightMaps w"
proof (induction rule: reachable.induct)
  case (reach_new withPhysics)
  show ?case by (simp add: noHeightMaps_def newWorld_def)
next
  case (reach_update w deltaTime playerPosition)
  then show ?case by (simp add: noHeightMaps_World_update)
next
  case (reach_interact w i now)
  then show ?case
    by (auto simp: noHeightMaps_def interactAt_def split: prod.splits)
next
  case (reach_timers w now)
  then show ?case by (simp add: noHeightMaps_def)
qed

lemma getHeightAt_noHeightMaps: "noHeightMaps w \<Longrightarrow> getHeightAt w x z = Some 0"
  by (auto simp: getHeightAt_def noHeightMaps_def Let_def split: option.splits)

text \<open>
  Claim C1, the code at a failing input.  With a noise function that is constantly 1, every
  height that \<open>generateTerrainForChunk\<close> samples is 6; yet after the first update of a
  new world, wherever the observer is, \<open>getHeightAt\<close> answers 0 at every point, inside the
  resident chunks too: the samples were never stored in \<open>chunk.heightMap\<close>.
\<close>

theorem generated_terrain_is_flat:
  "getHeightAt (World_update (e\<lparr>noise := \<lambda>x z. 1\<rparr>) deltaTime p (newWorld withPhysics)) x z = Some 0 \<and>
   getNoiseHeight (e\<lparr>noise := \<lambda>x z. 1\<rparr>) x z = 6"
proof -
  have "reachable (e\<lparr>noise := \<lambda>x z. 1\<rparr>) (World_update (e\<lparr>noise := \<lambda>x z. 1\<rparr>) deltaTime p (newWorld withPhysics))"
    by (intro reachable.intros)
  then show ?thesis
    by (simp add: getHeightAt_noHeightMaps reachable_noHeightMaps getNoiseHeight_def heightScale_def)
qed

text \<open>The same with no vertices, every draw 0, and the query at \<open>(10, 10)\<close>.\<close>

theorem generated_terrain_is_flat_witness:
  "getHeightAt (World_update \<lparr>noise = \<lambda>x z. 1, vertices = [], rnd = \<lambda>n. 0\<rparr> 0 (10, Some 0, 10) (newWorld False))
     10 10 = Some 0 \<and>
   getNoiseHeight \<lparr>noise = \<lambda>x z. 1, vertices = [], rnd = \<lambda>n. 0\<rparr> 10 10 = 6"
  using generated_terrain_is_flat [of "\<lparr>noise = \<lambda>x z. 0, vertices = [], rnd = \<lambda>n. 0\<rparr>" 0
      "(10, Some 0, 10)" False 10 10]
  by simp

text \<open>The residency theorem at the first update of a new world, observer at \<open>(60, 0, -10)\<close>.\<close>

theorem chunk_residency_witness:
  "reachable \<lparr>noise = \<lambda>x z. 0, vertices = [], rnd = \<lambda>n. 0\<rparr> (newWorld False) \<and>
   distinct (map fst (chunks (World_update \<lparr>noise = \<lambda>x z. 0, vertices = [], rnd = \<lambda>n. 0\<rparr> 0
                      (60, Some 0, -10) (newWorld False)))) \<and>
   set (map fst (chunks (World_update \<lparr>noise = \<lambda>x z. 0, vertices = [], rnd = \<lambda>n. 0\<rparr> 0
                      (60, Some 0, -10) (newWorld False)))) =
     {(x, z). \<bar>x - 1\<bar> \<le> 2 \<and> \<bar>z - (-1)\<bar> \<le> 2} \<and>
   length (chunks (World_update \<lparr>noise = \<lambda>x z. 0, vertices = [], rnd = \<lambda>n. 0\<rparr> 0
                      (60, Some 0, -10) (newWorld False))) = 25"
  using chunk_residency [OF reach_new, of "\<lparr>noise = \<lambda>x z. 0, vertices = [], rnd = \<lambda>n. 0\<rparr>" 0 "(60, Some 0, -10)" False]
    reach_new [of "\<lparr>noise = \<lambda>x z. 0, vertices = [], rnd = \<lambda>n. 0\<rparr>" False]
  by (simp add: chunkSize_def viewDistance_def)

section \<open>Resource nodes: depletion and respawn\<close>

lemma respawn_idem: "respawn (respawn n) = respawn n"
  by (simp add: respawn_def)

lemma length_foldl_fireRespawn [simp]:
  "length (objects (foldl fireRespawn w ts)) = length (objects w)"
  by (induction ts arbitrary: w) (simp_all add: fireRespawn_def)

lemma foldl_fireRespawn_other:
  "i \<notin> snd ` set ts \<Longrightarrow> objects (foldl fireRespawn w ts) ! i = objects w ! i"
  by (induction ts arbitrary: w) (auto simp: fireRespawn_def)

lemma foldl_fireRespawn_hit:
  "i \<in> snd ` set ts \<Longrightarrow> i < length (objects w) \<Longrightarrow>
   objects (foldl fireRespawn w ts) ! i = respawn (objects w ! i)"
proof (induction ts arbitrary: w)
  case Nil
  then show ?case by simp
next
  case (Cons t ts)
  let ?w = "fireRespawn w t"
  have len: "i < length (objects ?w)" using Cons.prems(2) by (simp add: fireRespawn_def)
  have step: "objects ?w ! i = (if snd t = i then respawn (objects w ! i) else objects w ! i)"
    using Cons.prems(2) by (simp add: fireRespawn_def)
  have unfold: "foldl fireRespawn w (t # ts) = foldl fireRespawn ?w ts" by simp
  show ?case
  proof (cases "i \<in> snd ` set ts")
    case True
    then have "objects (foldl fireRespawn ?w ts) ! i = respawn (objects ?w ! i)"
      using Cons.IH len by blast
    then show ?thesis
      unfolding unfold step by (simp add: respawn_idem)
  next
    case False
    then have "snd t = i" using Cons.prems(1) by auto
    moreover have "objects (foldl fireRespawn ?w ts) ! i = objects ?w ! i"
      using False by (rule foldl_fireRespawn_other)
    ultimately show ?thesis unfolding unfold using step by simp
  qed
qed

lemma objects_runTimers:
  "i < length (objects w) \<Longrightarrow>
   objects (runTimers now w) ! i =
     (if i \<in> snd ` set (dueTimers now w) then respawn (objects w ! i) else objects w ! i)"
  by (simp add: runTimers_def foldl_fireRespawn_hit foldl_fireRespawn_other)

text \<open>
  Claim C8.  A fresh tree (health 100, 25 per interaction) registered in the world, with no
  respawn of it pending: the first three \<open>interact()\<close> calls each yield one unit of wood and
  leave it active; the fourth yields the full \<open>resourceAmount\<close> (3), depletes it and
  schedules its respawn 30000 ms later; a fifth call returns \<open>null\<close> and changes nothing;
  before the timer is due the node stays depleted, and once it has fired the node is again
  the fresh tree (active, health 100).
\<close>

theorem depletion_round_trip:
  assumes "i < length (objects w)" and "objects w ! i = newNode Tree p"
    and "i \<notin> snd ` set (timers w)"
    and "earlier < now + 30000" and "now + 30000 \<le> later"
  shows "let (r1, w1) = interactAt now i w;
             (r2, w2) = interactAt now i w1;
             (r3, w3) = interactAt now i w2;
             (r4, w4) = interactAt now i w3;
             (r5, w5) = interactAt now i w4
         in [r1, r2, r3, r4, r5] = [Some (Wood, 1), Some (Wood, 1), Some (Wood, 1), Some (Wood, 3), None] \<and>
            canInteract (objects w3 ! i) \<and> health (objects w3 ! i) = 25 \<and> timers w3 = timers w \<and>
            \<not> canInteract (objects w4 ! i) \<and> health (objects w4 ! i) = 0 \<and>
            timers w4 = timers w @ [(now + 30000, i)] \<and>
            w5 = w4 \<and>
            objects (runTimers earlier w4) ! i = objects w4 ! i \<and>
            objects (runTimers later w4) ! i = newNode Tree p"
  using assms
  by (auto simp: interactAt_def interact_def canInteract_def Let_def objects_runTimers dueTimers_def
      respawn_def)

text \<open>The same on a world whose registry holds one tree, at times 0, 29999 and 30000.\<close>

theorem depletion_round_trip_witness:
  "let w = (newWorld False)\<lparr>objects := [newNode Tree (0, Some 0, 0)]\<rparr>;
       (r1, w1) = interactAt 0 0 w;
       (r2, w2) = interactAt 0 0 w1;
       (r3, w3) = interactAt 0 0 w2;
       (r4, w4) = interactAt 0 0 w3;
       (r5, w5) = interactAt 0 0 w4
   in [r1, r2, r3, r4, r5] = [Some (Wood, 1), Some (Wood, 1), Some (Wood, 1), Some (Wood, 3), None] \<and>
      canInteract (objects w3 ! 0) \<and> \<not> canInteract (objects w4 ! 0) \<and>
      timers w4 = [(30000, 0)] \<and> w5 = w4 \<and>
      \<not> canInteract (objects (runTimers 29999 w4) ! 0) \<and>
      objects (runTimers 30000 w4) ! 0 = newNode Tree (0, Some 0, 0)"
  using depletion_round_trip [of 0 "(newWorld False)\<lparr>objects := [newNode Tree (0, Some 0, 0)]\<rparr>"
      "(0, Some 0, 0)" 29999 0 30000]
  by (simp add: newWorld_def Let_def split_beta)

subsection \<open>A concrete world: the chunk generated at the origin\<close>

text \<open>
  With every random draw equal to 0 a new chunk gets 5 trees and 3 rocks, all at the corner
  of its footprint; the world below is the one \<open>generateChunk\<close> builds from the constructor's
  world with a physics system present.
\<close>

lemma getHeightAt_no_chunks: "chunks w = [] \<Longrightarrow> getHeightAt w x z = Some 0"
  by (simp add: getHeightAt_def)

lemma addObjects_origin:
  "rnd e = (\<lambda>n. 0) \<Longrightarrow> chunks w = [] \<Longrightarrow>
   addObjects e k n 0 0 (c, w) =
     (c\<lparr>cobjects := cobjects c @ [length (objects w) ..< length (objects w) + n]\<rparr>,
      w\<lparr>draws := draws w + 2 * n,
        objects := objects w @ replicate n (newNode k (0, Some 0, 0)),
        scene := scene w @ map NodeObject [length (objects w) ..< length (objects w) + n]\<rparr>)"
proof (induction n arbitrary: c w)
  case 0
  then show ?case by simp
next
  case (Suc n)
  let ?w1 = "w\<lparr>draws := draws w + 2\<rparr>"
  let ?i = "length (objects w)"
  let ?w2 = "?w1\<lparr>objects := objects ?w1 @ [newNode k (0, Some 0, 0)], scene := scene ?w1 @ [NodeObject ?i]\<rparr>"
  let ?c2 = "c\<lparr>cobjects := cobjects c @ [?i]\<rparr>"
  have h: "getHeightAt ?w1 0 0 = Some 0"
    using Suc.prems(2) by (simp add: getHeightAt_no_chunks)
  have "addObjects e k (Suc n) 0 0 (c, w) = addObjects e k n 0 0 (?c2, ?w2)"
    using Suc.prems(1) h by (simp add: Let_def)
  also have "\<dots> = (?c2\<lparr>cobjects := cobjects ?c2 @ [length (objects ?w2) ..< length (objects ?w2) + n]\<rparr>,
      ?w2\<lparr>draws := draws ?w2 + 2 * n,
        objects := objects ?w2 @ replicate n (newNode k (0, Some 0, 0)),
        scene := scene ?w2 @ map NodeObject [length (objects ?w2) ..< length (objects ?w2) + n]\<rparr>)"
    using Suc.prems by (intro Suc.IH) simp_all
  also have "\<dots> = (c\<lparr>cobjects := cobjects c @ [?i ..< ?i + Suc n]\<rparr>,
      w\<lparr>draws := draws w + 2 * Suc n,
        objects := objects w @ replicate (Suc n) (newNode k (0, Some 0, 0)),
        scene := scene w @ map NodeObject [?i ..< ?i + Suc n]\<rparr>)"
    by (simp add: upt_rec [of ?i] replicate_app_Cons_same del: upt_Suc)
  finally show ?case .
qed


lemma generateChunk_origin:
  "generateChunk \<lparr>noise = \<lambda>x z. 0, vertices = [], rnd = \<lambda>n. 0\<rparr> (0, 0) (newWorld True) =
   \<lparr>chunks = [((0, 0), \<lparr>terrain = Some 0, cobjects = [0 ..< 5] @ [5 ..< 8], heightMap = None,
                         chunkX = 0, chunkZ = 0\<rparr>)],
    lastPlayerChunkCoords = None,
    objects = replicate 5 (newNode Tree (0, Some 0, 0)) @ replicate 3 (newNode Rock (0, Some 0, 0)),
    scene = [TerrainMesh 0] @ map NodeObject [0 ..< 5] @ map NodeObject [5 ..< 8],
    physicsEnabled = True, terrainBodies = [(None, 1)], physics = Some [1],
    disposedMeshes = [], timers = [], fresh = 2, draws = 18\<rparr>"
proof -
  let ?e = "\<lparr>noise = \<lambda>x z. 0, vertices = [], rnd = \<lambda>n. 0\<rparr>"
  let ?c1 = "\<lparr>terrain = Some 0, cobjects = [], heightMap = None, chunkX = 0, chunkZ = 0\<rparr>"
  let ?w1 = "\<lparr>chunks = [], lastPlayerChunkCoords = None, objects = [], scene = [TerrainMesh 0],
    physicsEnabled = True, terrainBodies = [(None, 1)], physics = Some [1],
    disposedMeshes = [], timers = [], fresh = 2, draws = 0\<rparr>"
  have t: "generateTerrainForChunk ?e
      \<lparr>terrain = None, cobjects = [], heightMap = None, chunkX = fst (0, 0), chunkZ = snd (0, 0)\<rparr>
      (newWorld True) = (?c1, ?w1)"
    by (simp add: generateTerrainForChunk_def newWorld_def)
  have p: "populateChunk ?e ?c1 ?w1 =
      (?c1\<lparr>cobjects := [0 ..< 5] @ [5 ..< 8]\<rparr>,
       ?w1\<lparr>draws := 18,
            objects := replicate 5 (newNode Tree (0, Some 0, 0)) @ replicate 3 (newNode Rock (0, Some 0, 0)),
            scene := [TerrainMesh 0] @ map NodeObject [0 ..< 5] @ map NodeObject [5 ..< 8]\<rparr>)"
    by (simp add: populateChunk_def Let_def addObjects_origin del: upt_Suc)
  show ?thesis
    unfolding generateChunk_def Let_def t p split_conv by simp
qed


lemma interactAt_partial:
  assumes "i < length (objects w)" and "canInteract (objects w ! i)" and "25 < health (objects w ! i)"
  shows "interactAt now i w =
    (Some (resourceType (objects w ! i), 1),
     w\<lparr>objects := (objects w)[i := (objects w ! i)\<lparr>health := health (objects w ! i) - 25, scale := 95 / 100\<rparr>]\<rparr>)"
  using assms by (simp add: interactAt_def interact_def Let_def)

lemma interactAt_final:
  assumes "i < length (objects w)" and "canInteract (objects w ! i)" and "health (objects w ! i) \<le> 25"
  shows "interactAt now i w =
    (Some (resourceType (objects w ! i), resourceAmount (objects w ! i)),
     w\<lparr>objects := (objects w)[i := (objects w ! i)\<lparr>health := health (objects w ! i) - 25, scale := 95 / 100,
                                                  visible := False, interactionEnabled := False\<rparr>],
       timers := timers w @ [(now + respawnTime (objects w ! i) * 1000, i)]\<rparr>)"
  using assms by (simp add: interactAt_def interact_def Let_def)

lemma harvest_tree:
  assumes "i < length (objects w)" and "objects w ! i = newNode Tree p"
  shows "snd (interactAt now i (snd (interactAt now i (snd (interactAt now i (snd (interactAt now i w)))))))
    = w\<lparr>objects := (objects w)[i := (newNode Tree p)\<lparr>health := 0, scale := 95 / 100,
                                                  visible := False, interactionEnabled := False\<rparr>],
        timers := timers w @ [(now + 30000, i)]\<rparr>"
proof -
  let ?n1 = "(newNode Tree p)\<lparr>health := 75, scale := 95 / 100\<rparr>"
  let ?n2 = "(newNode Tree p)\<lparr>health := 50, scale := 95 / 100\<rparr>"
  let ?n3 = "(newNode Tree p)\<lparr>health := 25, scale := 95 / 100\<rparr>"
  let ?w1 = "w\<lparr>objects := (objects w)[i := ?n1]\<rparr>"
  let ?w2 = "w\<lparr>objects := (objects w)[i := ?n2]\<rparr>"
  let ?w3 = "w\<lparr>objects := (objects w)[i := ?n3]\<rparr>"
  have 1: "snd (interactAt now i w) = ?w1"
    using assms by (simp add: interactAt_partial canInteract_def)
  have 2: "snd (interactAt now i ?w1) = ?w2"
    using assms(1) by (simp add: interactAt_partial canInteract_def)
  have 3: "snd (interactAt now i ?w2) = ?w3"
    using assms(1) by (simp add: interactAt_partial canInteract_def)
  have 4: "snd (interactAt now i ?w3) = w\<lparr>objects := (objects w)[i := (newNode Tree p)\<lparr>health := 0, scale := 95 / 100,
                                                  visible := False, interactionEnabled := False\<rparr>],
        timers := timers w @ [(now + 30000, i)]\<rparr>"
    using assms(1) by (simp add: interactAt_final canInteract_def)
  show ?thesis unfolding 1 2 3 4 ..
qed

text \<open>
  Claim C9 as stated fails.  A tree of the chunk is harvested at time 0, so its respawn
  timer is pending, and the chunk is then evicted.  The chunk leaves the map, but the timer
  of its node is still in the queue (and revives the node when it fires), the terrain body
  is still in the physics world, and the node's group is still in the scene.
\<close>

theorem eviction_counterexample:
  "let e = \<lparr>noise = \<lambda>x z. 0, vertices = [], rnd = \<lambda>n. 0\<rparr>;
       w0 = generateChunk e (0, 0) (newWorld True);
       w4 = snd (interactAt 0 0 (snd (interactAt 0 0 (snd (interactAt 0 0 (snd (interactAt 0 0 w0)))))));
       w5 = removeChunk (0, 0) w4
   in 0 \<in> set (cobjects (the (map_of (chunks w4) (0, 0)))) \<and>
      timers w4 = [(30000, 0)] \<and> physics w4 = Some [1] \<and>
      map_of (chunks w5) (0, 0) = None \<and>
      timers w5 = [(30000, 0)] \<and>
      physics w5 = Some [1] \<and>
      NodeObject 0 \<in> set (scene w5) \<and>
      canInteract (objects (runTimers 30000 w5) ! 0)"
proof -
  let ?w0 = "generateChunk \<lparr>noise = \<lambda>x z. 0, vertices = [], rnd = \<lambda>n. 0\<rparr> (0, 0) (newWorld True)"
  have "snd (interactAt 0 0 (snd (interactAt 0 0 (snd (interactAt 0 0 (snd (interactAt 0 0 ?w0)))))))
    = ?w0\<lparr>objects := (objects ?w0)[0 := (newNode Tree (0, Some 0, 0))\<lparr>health := 0, scale := 95 / 100,
                                                  visible := False, interactionEnabled := False\<rparr>],
        timers := timers ?w0 @ [(0 + 30000, 0)]\<rparr>"
    by (rule harvest_tree) (simp_all add: generateChunk_origin nth_append)
  then show ?thesis
    unfolding Let_def
    by (simp add: generateChunk_origin removeChunk_def canInteract_def runTimers_def dueTimers_def
        fireRespawn_def respawn_def nth_append del: upt_Suc)
qed


text \<open>The amended C9 on the chunk generated at the origin.\<close>

theorem eviction_effects_witness:
  "map_of (chunks (generateChunk \<lparr>noise = \<lambda>x z. 0, vertices = [], rnd = \<lambda>n. 0\<rparr> (0, 0) (newWorld True))) (0, 0)
     = Some \<lparr>terrain = Some 0, cobjects = [0 ..< 5] @ [5 ..< 8], heightMap = None, chunkX = 0, chunkZ = 0\<rparr> \<and>
   map_of (chunks (removeChunk (0, 0)
     (generateChunk \<lparr>noise = \<lambda>x z. 0, vertices = [], rnd = \<lambda>n. 0\<rparr> (0, 0) (newWorld True)))) (0, 0) = None \<and>
   timers (removeChunk (0, 0)
     (generateChunk \<lparr>noise = \<lambda>x z. 0, vertices = [], rnd = \<lambda>n. 0\<rparr> (0, 0) (newWorld True))) = [] \<and>
   TerrainMesh 0 \<notin> set (scene (removeChunk (0, 0)
     (generateChunk \<lparr>noise = \<lambda>x z. 0, vertices = [], rnd = \<lambda>n. 0\<rparr> (0, 0) (newWorld True)))) \<and>
   0 \<in> set (disposedMeshes (removeChunk (0, 0)
     (generateChunk \<lparr>noise = \<lambda>x z. 0, vertices = [], rnd = \<lambda>n. 0\<rparr> (0, 0) (newWorld True))))"
proof -
  let ?w = "generateChunk \<lparr>noise = \<lambda>x z. 0, vertices = [], rnd = \<lambda>n. 0\<rparr> (0, 0) (newWorld True)"
  let ?c = "\<lparr>terrain = Some 0, cobjects = [0 ..< 5] @ [5 ..< 8], heightMap = None, chunkX = 0, chunkZ = 0\<rparr>"
  have c: "map_of (chunks ?w) (0, 0) = Some ?c \<and> terrain ?c = Some 0"
    by (simp add: generateChunk_origin del: upt_Suc)
  have t: "timers ?w = []"
    by (simp add: generateChunk_origin)
  have e: "map_of (chunks (removeChunk (0, 0) ?w)) (0, 0) = None"
    "timers (removeChunk (0, 0) ?w) = timers ?w"
    "\<forall>c m. map_of (chunks ?w) (0, 0) = Some c \<and> terrain c = Some m \<longrightarrow>
       TerrainMesh m \<notin> set (scene (removeChunk (0, 0) ?w)) \<and>
       m \<in> set (disposedMeshes (removeChunk (0, 0) ?w))"
    using eviction_effects [of "(0, 0)" ?w 0] by blast+
  from e(3) c have "TerrainMesh 0 \<notin> set (scene (removeChunk (0, 0) ?w)) \<and>
       0 \<in> set (disposedMeshes (removeChunk (0, 0) ?w))"
    by blast
  with c e(1,2) t show ?thesis by simp
qed

text \<open>
  C10 on the chunk generated at the origin: after its eviction all eight of its nodes are
  still in the registry and are still found by both queries.
\<close>

theorem eviction_keeps_registry_witness:
  "map_of (chunks (removeChunk (0, 0)
     (generateChunk \<lparr>noise = \<lambda>x z. 0, vertices = [], rnd = \<lambda>n. 0\<rparr> (0, 0) (newWorld True)))) (0, 0) = None \<and>
   0 \<in> set (cobjects (the (map_of (chunks
     (generateChunk \<lparr>noise = \<lambda>x z. 0, vertices = [], rnd = \<lambda>n. 0\<rparr> (0, 0) (newWorld True))) (0, 0)))) \<and>
   length (objects (removeChunk (0, 0)
     (generateChunk \<lparr>noise = \<lambda>x z. 0, vertices = [], rnd = \<lambda>n. 0\<rparr> (0, 0) (newWorld True)))) = 8 \<and>
   checkInteraction (removeChunk (0, 0)
     (generateChunk \<lparr>noise = \<lambda>x z. 0, vertices = [], rnd = \<lambda>n. 0\<rparr> (0, 0) (newWorld True)))
     (0, Some 0, 0) 2 = Some 0 \<and>
   getObjectsNear (removeChunk (0, 0)
     (generateChunk \<lparr>noise = \<lambda>x z. 0, vertices = [], rnd = \<lambda>n. 0\<rparr> (0, 0) (newWorld True)))
     (0, Some 0, 0) 2 = [0 ..< 8]"
proof -
  let ?w = "generateChunk \<lparr>noise = \<lambda>x z. 0, vertices = [], rnd = \<lambda>n. 0\<rparr> (0, 0) (newWorld True)"
  let ?P = "\<lambda>i. js_less (distanceTo (0, Some 0, 0) (position (objects ?w ! i))) 2"
  have len: "length (objects ?w) = 8" by (simp add: generateChunk_origin)
  have near: "?P i" if "i < 8" for i
    using that by (simp add: generateChunk_origin nth_append)
  have can: "canInteract (objects ?w ! i)" if "i < 8" for i
    using that by (simp add: generateChunk_origin nth_append canInteract_def)
  have g: "getObjectsNear ?w (0, Some 0, 0) 2 = [0 ..< 8]"
    unfolding getObjectsNear_def len by (rule filter_True) (simp add: near)
  have "filter (\<lambda>i. ?P i \<and> canInteract (objects ?w ! i)) [0 ..< 8] = [0 ..< 8]"
    by (rule filter_True) (simp add: near can)
  then have c: "checkInteraction ?w (0, Some 0, 0) 2 = Some 0"
    unfolding checkInteraction_def len by (simp add: upt_rec [of 0 8] del: upt_Suc)
  have m: "map_of (chunks (removeChunk (0, 0) ?w)) (0, 0) = None"
    by (simp add: map_of_removeChunk)
  have o: "0 \<in> set (cobjects (the (map_of (chunks ?w) (0, 0))))"
    by (simp add: generateChunk_origin del: upt_Suc)
  show ?thesis
    using eviction_keeps_registry [of "(0, 0)" ?w "(0, Some 0, 0)" 2] g c m o len by simp
qed

subsection \<open>The interpolation of \<open>getHeightAt\<close> on a chunk that has a height grid\<close>

text \<open>
  The arithmetic of \<open>getHeightAt\<close> itself: when the containing chunk is resident and carries a
  height grid of at least \<open>32 * 32\<close> samples, the result is the bilinear interpolation of the
  four samples around the fractional grid coordinates, the upper indices clamped to 31.
\<close>

lemma getHeightAt_bilinear:
  assumes c: "map_of (chunks w) (\<lfloor>x / chunkSize\<rfloor>, \<lfloor>z / chunkSize\<rfloor>) = Some c"
    and hm: "heightMap c = Some hm" and len: "1024 \<le> length hm"
  defines "gridX \<equiv> ((x - of_int \<lfloor>x / chunkSize\<rfloor> * chunkSize) / chunkSize) * 32"
    and "gridZ \<equiv> ((z - of_int \<lfloor>z / chunkSize\<rfloor> * chunkSize) / chunkSize) * 32"
  defines "x0 \<equiv> \<lfloor>gridX\<rfloor>" and "z0 \<equiv> \<lfloor>gridZ\<rfloor>"
  defines "x1 \<equiv> min (x0 + 1) 31" and "z1 \<equiv> min (z0 + 1) 31"
  defines "fx \<equiv> gridX - of_int x0" and "fz \<equiv> gridZ - of_int z0"
  shows "0 \<le> x0 \<and> x0 \<le> 31 \<and> 0 \<le> z0 \<and> z0 \<le> 31 \<and>
         getHeightAt w x z =
           Some (hm ! nat (x0 + z0 * 32) * (1 - fx) * (1 - fz) + hm ! nat (x1 + z0 * 32) * fx * (1 - fz) +
                 hm ! nat (x0 + z1 * 32) * (1 - fx) * fz + hm ! nat (x1 + z1 * 32) * fx * fz)"
proof -
  have frac: "0 \<le> (v - of_int \<lfloor>v / 50\<rfloor> * 50) / 50 \<and> (v - of_int \<lfloor>v / 50\<rfloor> * 50) / 50 < 1" for v :: real
  proof -
    have "(v - of_int \<lfloor>v / 50\<rfloor> * 50) / 50 = v / 50 - of_int \<lfloor>v / 50\<rfloor>" by (simp add: field_simps)
    then show ?thesis by linarith
  qed
  have gx: "0 \<le> gridX \<and> gridX < 32" using frac [of x] by (simp add: gridX_def chunkSize_def)
  have gz: "0 \<le> gridZ \<and> gridZ < 32" using frac [of z] by (simp add: gridZ_def chunkSize_def)
  have bx: "0 \<le> x0 \<and> x0 \<le> 31" using gx unfolding x0_def by (simp add: floor_less_iff le_floor_iff)
  have bz: "0 \<le> z0 \<and> z0 \<le> 31" using gz unfolding z0_def by (simp add: floor_less_iff le_floor_iff)
  have b1: "0 \<le> x1 \<and> x1 \<le> 31" "0 \<le> z1 \<and> z1 \<le> 31" using bx bz by (auto simp: x1_def z1_def)
  have s: "sample hm (a + b * 32) = Some (hm ! nat (a + b * 32))"
    if "0 \<le> a \<and> a \<le> 31" "0 \<le> b \<and> b \<le> 31" for a b :: int
    using that len by (simp add: sample_def)
  have "getHeightAt w x z =
      Some ((hm ! nat (x0 + z0 * 32) * (1 - fx) + hm ! nat (x1 + z0 * 32) * fx) * (1 - fz) +
            (hm ! nat (x0 + z1 * 32) * (1 - fx) + hm ! nat (x1 + z1 * 32) * fx) * fz)"
    using c hm bx bz s [OF bx bz] s [OF b1(1) bz] s [OF bx b1(2)] s [OF b1(1) b1(2)]
    unfolding getHeightAt_def Let_def x0_def z0_def x1_def z1_def gridX_def gridZ_def fx_def fz_def
    by simp
  then show ?thesis using bx bz by (simp add: algebra_simps)
qed


text \<open>
  The cell \<open>(0, 0)\<close> of chunk \<open>(0, 0)\<close> with corner samples 1, 3, 5, 7: the centre of the cell
  (one grid step is \<open>50 / 32\<close> world units) and its four corners.
\<close>

lemma getHeightAt_cell_example:
  "let w = (newWorld False)\<lparr>chunks := [((0, 0), \<lparr>terrain = None, cobjects = [],
               heightMap = Some ([1, 3] @ replicate 30 0 @ [5, 7] @ replicate 990 0),
               chunkX = 0, chunkZ = 0\<rparr>)]\<rparr>
   in getHeightAt w (25 / 32) (25 / 32) = Some 4 \<and>
      getHeightAt w 0 0 = Some 1 \<and>
      getHeightAt w (25 / 16) 0 = Some 3 \<and>
      getHeightAt w 0 (25 / 16) = Some 5 \<and>
      getHeightAt w (25 / 16) (25 / 16) = Some 7"
  by (simp add: getHeightAt_def newWorld_def chunkSize_def sample_def nth_append Let_def)

section \<open>Damage intake\<close>

text \<open>
  What each of the three \<open>takeDamage\<close> does keep: the allied unit and the objective clamp
  their health at 0, and the hostile unit ignores damage once it is dead.
\<close>

lemma AnimalUnit_takeDamage_nonneg:
  "0 \<le> ahealth u \<Longrightarrow> 0 \<le> ahealth (AnimalUnit_takeDamage amount u)"
  by (simp add: AnimalUnit_takeDamage_def Let_def)

lemma AnimalUnit_takeDamage_dead:
  "AnimalUnit_isDead u \<Longrightarrow> 0 \<le> amount \<Longrightarrow> AnimalUnit_takeDamage amount u = u\<lparr>ahealth := 0\<rparr>"
  by (simp add: AnimalUnit_takeDamage_def AnimalUnit_isDead_def Let_def)

lemma objective_takeDamage_nonneg: "0 \<le> ohealth (snd (objective_takeDamage amount ob))"
  by (simp add: objective_takeDamage_def objectiveDestroyed_def Let_def)

lemma objective_takeDamage_dead:
  "objective_isDestroyed ob \<Longrightarrow> 0 \<le> amount \<Longrightarrow>
   snd (objective_takeDamage amount ob) = ob\<lparr>ohealth := 0, destroyedEvents := destroyedEvents ob + 1\<rparr>"
  by (simp add: objective_takeDamage_def objective_isDestroyed_def objectiveDestroyed_def Let_def max_def)

lemma die_dead: "units s x = Some this \<Longrightarrow> \<not> isAlive this \<Longrightarrow> die r1 r2 x s = (None, s)"
  by (simp add: die_def)

lemma EnemyUnit_takeDamage_dead:
  "units s x = Some this \<Longrightarrow> \<not> isAlive this \<Longrightarrow> EnemyUnit_takeDamage r1 r2 amount x s = (0, s)"
  by (simp add: EnemyUnit_takeDamage_def)

lemma EnemyUnit_takeDamage_alive:
  assumes "units s x = Some this" and "isAlive this"
  shows "EnemyUnit_takeDamage r1 r2 amount x s =
    (amount,
     s\<lparr>units := (units s)(x \<mapsto>
        (if ehealth this - amount \<le> 0
         then this\<lparr>ehealth := ehealth this - amount, isAlive := False, state := Die\<rparr>
         else this\<lparr>ehealth := ehealth this - amount\<rparr>))\<rparr>)"
  using assms by (simp add: EnemyUnit_takeDamage_def Let_def die_def)

text \<open>
  A goblin (health 50) spawned into the constructor's state, with a context: the enemy
  registers itself and is pushed again by \<open>spawnEnemy\<close>, so the roster holds it twice.
\<close>

lemma spawn_goblin:
  "spawnEnemy (Constructs \<lparr>attr_health = 50, attr_experience = None\<rparr>) (newEnemySystem True True) =
     (Some 0, (newEnemySystem True True)\<lparr>enemies := [0, 0],
        units := [0 \<mapsto> \<lparr>ehealth = 50, emaxHealth = 50, isAlive = True, state = Chase, experience = None\<rparr>],
        nextUnit := 1, emitted := [EnemySpawned 0, EnemySpawned 0]\<rparr>)"
  by (simp add: EnemyUnit_new_def registerEnemy_def pushEnemy_def EnemyUnit_fields_def newEnemySystem_def Let_def)

text \<open>
  Claim C4, the code at two failing inputs.  A hostile unit with health 50 that takes 60
  damage is left with health \<open>-10\<close>: \<open>EnemyUnit.takeDamage\<close> does not clamp.  The objective,
  destroyed by 1000 damage, runs \<open>objectiveDestroyed\<close> a second time when it is hit again:
  its \<open>takeDamage\<close> has no guard for an objective that is already destroyed.
\<close>

theorem takeDamage_contract_broken:
  "(let s = snd (spawnEnemy (Constructs \<lparr>attr_health = 50, attr_experience = None\<rparr>) (newEnemySystem True True))
    in map_option ehealth (units (snd (EnemyUnit_takeDamage r1 r2 60 0 s)) 0) = Some (- 10)) \<and>
   (let (h1, ob1) = objective_takeDamage 1000 newObjective;
        (h2, ob2) = objective_takeDamage 10 ob1
    in h1 = 0 \<and> destroyedEvents ob1 = 1 \<and> h2 = 0 \<and> destroyedEvents ob2 = 2)"
  unfolding spawn_goblin
  by (simp add: EnemyUnit_takeDamage_alive newEnemySystem_def objective_takeDamage_def
      newObjective_def objectiveDestroyed_def Let_def)

text \<open>The same with both loot draws 0.\<close>

theorem takeDamage_contract_broken_witness:
  "map_option ehealth (units (snd (EnemyUnit_takeDamage 0 0 60 0
      (snd (spawnEnemy (Constructs \<lparr>attr_health = 50, attr_experience = None\<rparr>) (newEnemySystem True True))))) 0)
     = Some (- 10) \<and>
   destroyedEvents (snd (objective_takeDamage 10 (snd (objective_takeDamage 1000 newObjective)))) = 2"
  using takeDamage_contract_broken [of 0 0]
  by (simp add: Let_def split_beta)

section \<open>The wave director: scheduling\<close>

text \<open>The two scheduling loops and the functions around them, in closed form.\<close>

lemma foldl_scheduleBurst:
  "foldl (scheduleBurst now) s [0 ..< n] =
     (if enemiesRemaining s > 0
      then s\<lparr>pending := pending s @ map (\<lambda>i. (nextTimer s + i, now + of_nat i * 500, SpawnBurst)) [0 ..< n],
             nextTimer := nextTimer s + n\<rparr>
      else s)"
  by (induction n) (simp_all add: scheduleBurst_def setTimeout_def)

lemma foldl_scheduleAttempt:
  "foldl (scheduleAttempt now) s [0 ..< n] =
     (if enemiesRemaining s > 0
      then s\<lparr>pending := pending s @ map (\<lambda>i. (nextTimer s + i, now + of_nat i * 800, SpawnAttempt)) [0 ..< n],
             nextTimer := nextTimer s + n\<rparr>
      else s)"
  by (induction n) (simp_all add: scheduleAttempt_def setTimeout_def)

lemma startNextWave_eq:
  "startNextWave now s =
     s\<lparr>waveNumber := waveNumber s + 1, waveInProgress := True,
       waveStartTime := Some (now / 1000), lastSpawnTime := Some (now / 1000),
       enemiesRemaining := min (5 + (waveNumber s + 1) * 2) 30,
       pending := (if 0 < min (5 + (waveNumber s + 1) * 2) 30
                   then pending s @ map (\<lambda>i. (nextTimer s + i, now + of_nat i * 500, SpawnBurst))
                                          [0 ..< nat (min (3 + (waveNumber s + 1) div 2) 10)]
                   else pending s),
       nextTimer := (if 0 < min (5 + (waveNumber s + 1) * 2) 30
                     then nextTimer s + nat (min (3 + (waveNumber s + 1) div 2) 10) else nextTimer s)\<rparr>"
  by (simp add: startNextWave_def Let_def foldl_scheduleBurst)

lemma spawnWaveEnemies_idle:
  "enemiesRemaining s \<le> 0 \<Longrightarrow> spawnWaveEnemies now r count s = s\<lparr>lastSpawnTime := Some (now / 1000)\<rparr>"
  by (simp add: spawnWaveEnemies_def Let_def foldl_scheduleAttempt)

lemma spawnWaveEnemies_eq:
  assumes "0 < enemiesRemaining s"
  shows "spawnWaveEnemies now r count s =
     (let n = nat (min count (enemiesRemaining s));
          old = (case nextSpawnTimeout s of Some tid \<Rightarrow> if tid \<noteq> 0 then [tid] else [] | None \<Rightarrow> [])
      in s\<lparr>lastSpawnTime := Some (now / 1000),
           pending := filter (\<lambda>t. fst t \<notin> set old)
                        (pending s @ map (\<lambda>i. (nextTimer s + i, now + of_nat i * 800, SpawnAttempt)) [0 ..< n])
                      @ [(nextTimer s + n, now + (4000 + r * 4000), NextBatch)],
           nextTimer := nextTimer s + n + 1,
           nextSpawnTimeout := Some (nextTimer s + n)\<rparr>)"
  using assms
  by (simp add: spawnWaveEnemies_def Let_def foldl_scheduleAttempt setTimeout_def clearTimeout_def
      split: option.splits)



section \<open>The wave director: the invariant of the timer queue\<close>
























lemma single_batch_timer:
  assumes "timersOk s"
  shows "length (filter (\<lambda>t. snd (snd t) = NextBatch) (pending s)) \<le> 1"
proof -
  let ?b = "filter (\<lambda>t. snd (snd t) = NextBatch) (pending s)"
  have d: "distinct (map fst ?b)"
    using assms by (simp add: timersOk_def distinct_map_filter)
  have same: "\<forall>t \<in> set ?b. nextSpawnTimeout s = Some (fst t)"
    using assms by (auto simp: timersOk_def)
  show ?thesis
  proof (cases ?b)
    case Nil
    then show ?thesis by simp
  next
    case (Cons a as)
    show ?thesis
    proof (cases as)
      case Nil
      with Cons show ?thesis by simp
    next
      case (Cons b bs)
      have a: "a \<in> set ?b" and b: "b \<in> set ?b"
        using \<open>?b = a # as\<close> Cons by simp_all
      have "Some (fst a) = Some (fst b)"
        using same [rule_format, OF a] same [rule_format, OF b] by (rule trans [OF sym])
      then have "fst a = fst b" by simp
      with d \<open>?b = a # as\<close> Cons show ?thesis by simp
    qed
  qed
qed

section \<open>The wave director: the schedule of a wave\<close>



text \<open>
  The first update of a new director with a frame time of 5 s, at 5000 ms: the countdown
  reaches 0 and wave 1 starts.  Then its first burst closure, fired at once (the batch
  delay drawn is \<open>1 / 2\<close>).
\<close>

lemma wave1_started:
  "EnemySystem_update ai 5000 5 r r1 r2 (newEnemySystem wi wc) =
     (newEnemySystem wi wc)\<lparr>waveNumber := 1, waveInProgress := True, timeUntilNextWave := 0,
        waveStartTime := Some 5, lastSpawnTime := Some 5, enemiesRemaining := 7,
        pending := [(1, 5000, SpawnBurst), (2, 5500, SpawnBurst), (3, 6000, SpawnBurst)],
        nextTimer := 4\<rparr>"
proof -
  let ?s0 = "newEnemySystem wi wc"
  let ?s1 = "?s0\<lparr>waveNumber := 1, waveInProgress := True, timeUntilNextWave := 0,
        waveStartTime := Some 5, lastSpawnTime := Some 5, enemiesRemaining := 7,
        pending := [(1, 5000, SpawnBurst), (2, 5500, SpawnBurst), (3, 6000, SpawnBurst)],
        nextTimer := 4\<rparr>"
  have a: "waveWatchdog 5000 ?s0 = ?s0"
    by (simp add: waveWatchdog_def newEnemySystem_def)
  have b: "waveMechanics 5000 5 ?s0 = ?s1"
    by (simp add: waveMechanics_def startNextWave_eq newEnemySystem_def eval_nat_numeral)
  have c: "stuckCountdown 5000 ?s1 = ?s1"
    by (simp add: stuckCountdown_def newEnemySystem_def)
  have d: "spawnWatchdog 5000 r ?s1 = ?s1"
    by (simp add: spawnWatchdog_def newEnemySystem_def)
  have e: "cleanupInvalid ?s1 = ?s1"
    by (simp add: cleanupInvalid_def newEnemySystem_def)
  have f: "enemies ?s1 = []" by (simp add: newEnemySystem_def)
  show ?thesis
    unfolding EnemySystem_update_def director_def Let_def a b c d e f by simp
qed

lemma wave1_first_burst:
  "fireTimer 5000 (1 / 2) outcome 1 (EnemySystem_update ai 5000 5 r r1 r2 (newEnemySystem wi wc)) =
     (newEnemySystem wi wc)\<lparr>waveNumber := 1, waveInProgress := True, timeUntilNextWave := 0,
        waveStartTime := Some 5, lastSpawnTime := Some 5, enemiesRemaining := 7,
        pending := [(2, 5500, SpawnBurst), (3, 6000, SpawnBurst), (4, 5000, SpawnAttempt), (5, 11000, NextBatch)],
        nextTimer := 6, nextSpawnTimeout := Some 5\<rparr>"
  unfolding wave1_started
  by (simp add: fireTimer_def clearTimeout_def spawnWaveEnemies_eq newEnemySystem_def Let_def)







section \<open>The wave director: accounting\<close>

lemma spawnWaveEnemies_roster [simp]:
  "enemies (spawnWaveEnemies now r count s) = enemies s"
  "enemiesRemaining (spawnWaveEnemies now r count s) = enemiesRemaining s"
  by (cases "0 < enemiesRemaining s"; simp add: spawnWaveEnemies_eq spawnWaveEnemies_idle Let_def)+

lemma nextBatch_roster [simp]:
  "enemies (nextBatch now r s) = enemies s"
  "enemiesRemaining (nextBatch now r s) = enemiesRemaining s"
  by (simp_all add: nextBatch_def Let_def)



lemma startNextWave_roster [simp]: "enemies (startNextWave now s) = enemies s"
  by (simp add: startNextWave_eq)

lemma completeWave_roster [simp]: "enemies (completeWave s) = []"
  by (simp add: completeWave_def Let_def)







text \<open>
  With a context, an attempt whose spawn succeeds enters the new enemy twice: the sum of
  roster size and pending count rises by one.
\<close>

lemma spawnAttempt_twice:
  assumes "contextFound s" and "nextUnit s \<notin> set (enemies s)"
  shows "enemies (spawnAttempt (Constructs a) s) = enemies s @ [nextUnit s, nextUnit s]"
    and "int (length (enemies (spawnAttempt (Constructs a) s))) + enemiesRemaining (spawnAttempt (Constructs a) s)
           = int (length (enemies s)) + enemiesRemaining s + 1"
  using assms
  by (simp_all add: spawnAttempt_def EnemyUnit_new_def registerEnemy_def pushEnemy_def Let_def)




section \<open>Death and removal of a hostile agent\<close>

text \<open>Whatever the damage, \<open>EnemyUnit.takeDamage\<close> publishes nothing and credits nothing.\<close>

lemma EnemyUnit_takeDamage_silent:
  "emitted (snd (EnemyUnit_takeDamage r1 r2 amount x s)) = emitted s \<and>
   inventory (snd (EnemyUnit_takeDamage r1 r2 amount x s)) = inventory s \<and>
   enemies (snd (EnemyUnit_takeDamage r1 r2 amount x s)) = enemies s"
proof (cases "units s x")
  case None
  then show ?thesis by (simp add: EnemyUnit_takeDamage_def)
next
  case (Some this)
  show ?thesis
  proof (cases "isAlive this \<and> ehealth this - amount \<le> 0")
    case False
    with Some show ?thesis by (auto simp: EnemyUnit_takeDamage_def Let_def)
  next
    case True
    define s2 where "s2 = s\<lparr>units := (units s)(x \<mapsto> this\<lparr>ehealth := ehealth this - amount, isAlive := False, state := Die\<rparr>)\<rparr>"
    have u: "snd (EnemyUnit_takeDamage r1 r2 amount x s) = snd (die r1 r2 x s2)"
      using True Some by (simp add: EnemyUnit_takeDamage_def Let_def s2_def)
    have "die r1 r2 x s2 = (None, s2)"
      by (rule die_dead [where this = "this\<lparr>ehealth := ehealth this - amount, isAlive := False, state := Die\<rparr>"])
         (simp_all add: s2_def)
    then show ?thesis unfolding u by (simp add: s2_def)
  qed
qed

text \<open>
  Claim C5, the code at a failing input.  The first goblin of wave 1 (health 50) is spawned
  and takes 50 damage.  The spawn has put it on the roster twice and announced it twice:
  once when its constructor registered it with the context, once in \<open>spawnEnemy\<close>.
  \<open>takeDamage\<close> clears \<open>isAlive\<close> before it calls \<open>die()\<close>, whose first line returns when
  \<open>isAlive\<close> is false: no death notification is published and no loot is produced.  On the
  director's next update the first loop removes both entries of the dead goblin from the
  roster; the inventory is not credited and no \<open>enemyRemoved\<close> event is emitted.
\<close>

theorem death_without_loot:
  "let goblin = \<lparr>ehealth = 50, emaxHealth = 50, isAlive = True, state = Chase, experience = None\<rparr>;
       s3 = fireTimer 5000 (1 / 2) (Constructs \<lparr>attr_health = 50, attr_experience = None\<rparr>) 4
              (fireTimer 5000 (1 / 2) ThrowsBefore 1
                 (EnemySystem_update ai 5000 5 r r1 r2 (newEnemySystem True True)));
       (dealt, s4) = EnemyUnit_takeDamage r1 r2 50 0 s3;
       s5 = EnemySystem_update ai 5016 (16 / 1000) r r1 r2 s4
   in enemies s3 = [0, 0] \<and> units s3 0 = Some goblin \<and>
      emitted s3 = [EnemySpawned 0, EnemySpawned 0] \<and> inventory s3 = Some (0, 0) \<and>
      dealt = 50 \<and>
      enemies s4 = [0, 0] \<and>
      units s4 0 = Some (goblin\<lparr>ehealth := 0, isAlive := False, state := Die\<rparr>) \<and>
      emitted s4 = [EnemySpawned 0, EnemySpawned 0] \<and> inventory s4 = Some (0, 0) \<and>
      enemies s5 = [] \<and> emitted s5 = [EnemySpawned 0, EnemySpawned 0] \<and> inventory s5 = Some (0, 0)"
proof -
  let ?goblin = "\<lparr>ehealth = 50, emaxHealth = 50, isAlive = True, state = Chase, experience = None\<rparr>"
  let ?dead = "\<lparr>ehealth = 0, emaxHealth = 50, isAlive = False, state = Die, experience = None\<rparr>"
  let ?s2 = "(newEnemySystem True True)\<lparr>waveNumber := 1, waveInProgress := True, timeUntilNextWave := 0,
        waveStartTime := Some 5, lastSpawnTime := Some 5, enemiesRemaining := 7,
        pending := [(2, 5500, SpawnBurst), (3, 6000, SpawnBurst), (4, 5000, SpawnAttempt), (5, 11000, NextBatch)],
        nextTimer := 6, nextSpawnTimeout := Some 5\<rparr>"
  let ?s3 = "?s2\<lparr>pending := [(2, 5500, SpawnBurst), (3, 6000, SpawnBurst), (5, 11000, NextBatch)],
        units := [0 \<mapsto> ?goblin], nextUnit := 1,
        enemies := [0, 0], emitted := [EnemySpawned 0, EnemySpawned 0], enemiesRemaining := 6\<rparr>"
  let ?s4 = "?s3\<lparr>units := [0 \<mapsto> ?dead]\<rparr>"
  have 3: "fireTimer 5000 (1 / 2) (Constructs \<lparr>attr_health = 50, attr_experience = None\<rparr>) 4 ?s2 = ?s3"
    by (simp add: fireTimer_def clearTimeout_def spawnAttempt_def EnemyUnit_new_def registerEnemy_def
        pushEnemy_def EnemyUnit_fields_def newEnemySystem_def Let_def)
  have alive: "units ?s3 0 = Some ?goblin" "isAlive ?goblin" by simp_all
  have 4: "EnemyUnit_takeDamage r1 r2 50 0 ?s3 = (50, ?s4)"
    unfolding EnemyUnit_takeDamage_alive [OF alive] by (simp add: newEnemySystem_def)
  have a: "waveWatchdog 5016 ?s4 = ?s4"
    by (simp add: waveWatchdog_def newEnemySystem_def)
  have b: "waveMechanics 5016 (16 / 1000) ?s4 = ?s4"
    by (simp add: waveMechanics_def newEnemySystem_def)
  have c: "stuckCountdown 5016 ?s4 = ?s4"
    by (simp add: stuckCountdown_def newEnemySystem_def)
  have d: "spawnWatchdog 5016 r ?s4 = ?s4"
    by (simp add: spawnWatchdog_def newEnemySystem_def)
  have e: "cleanupInvalid ?s4 = ?s4\<lparr>enemies := []\<rparr>"
    by (simp add: cleanupInvalid_def valid_def newEnemySystem_def)
  have 5: "EnemySystem_update ai 5016 (16 / 1000) r r1 r2 ?s4 = ?s4\<lparr>enemies := []\<rparr>"
    unfolding EnemySystem_update_def director_def Let_def a b c d e by simp
  show ?thesis
    unfolding wave1_first_burst Let_def 3 4 split_conv 5
    by (simp add: newEnemySystem_def)
qed

text \<open>The same with all draws fixed and an enemy \<open>update\<close> that does nothing.\<close>

theorem death_without_loot_witness:
  "let goblin = \<lparr>ehealth = 50, emaxHealth = 50, isAlive = True, state = Chase, experience = None\<rparr>;
       s3 = fireTimer 5000 (1 / 2) (Constructs \<lparr>attr_health = 50, attr_experience = None\<rparr>) 4
              (fireTimer 5000 (1 / 2) ThrowsBefore 1
                 (EnemySystem_update (\<lambda>dt e. e) 5000 5 (1 / 2) 0 0 (newEnemySystem True True)));
       (dealt, s4) = EnemyUnit_takeDamage 0 0 50 0 s3;
       s5 = EnemySystem_update (\<lambda>dt e. e) 5016 (16 / 1000) (1 / 2) 0 0 s4
   in enemies s3 = [0, 0] \<and> units s3 0 = Some goblin \<and>
      emitted s3 = [EnemySpawned 0, EnemySpawned 0] \<and> inventory s3 = Some (0, 0) \<and>
      dealt = 50 \<and>
      enemies s4 = [0, 0] \<and>
      units s4 0 = Some (goblin\<lparr>ehealth := 0, isAlive := False, state := Die\<rparr>) \<and>
      emitted s4 = [EnemySpawned 0, EnemySpawned 0] \<and> inventory s4 = Some (0, 0) \<and>
      enemies s5 = [] \<and> emitted s5 = [EnemySpawned 0, EnemySpawned 0] \<and> inventory s5 = Some (0, 0)"
  using death_without_loot [of "\<lambda>dt e. e" "1 / 2" 0 0] .

section \<open>The wave director: watchdogs\<close>














end
